theory Spec2Isabelle
  imports Complex_Main
begin

section \<open>JavaScript numbers\<close>

text \<open>
  The engine computes with JavaScript numbers. A number is modelled as an exact real or
  as \<open>NaN\<close>; a property that is missing from an object reads as \<open>undefined\<close>, which every
  arithmetic operation and \<open>Math.abs\<close> turn into \<open>NaN\<close>, so a missing numeric property is
  \<open>NaN\<close> too. The operations below are exact; the rounding of binary floating point is
  modelled where a result depends on it, in the peak estimator, with the rounded
  operations of the next section. The infinities are not modelled: every division of
  the modelled code has a divisor that is a non-zero constant or is guarded away from
  zero before it is used.
\<close>

datatype jsnum = NaN | Num real

definition trunc0 :: "real \<Rightarrow> int" where
  "trunc0 x = (if 0 \<le> x then \<lfloor>x\<rfloor> else \<lceil>x\<rceil>)"

fun js_add :: "jsnum \<Rightarrow> jsnum \<Rightarrow> jsnum" where
  "js_add (Num a) (Num b) = Num (a + b)"
| "js_add _ _ = NaN"

fun js_sub :: "jsnum \<Rightarrow> jsnum \<Rightarrow> jsnum" where
  "js_sub (Num a) (Num b) = Num (a - b)"
| "js_sub _ _ = NaN"

fun js_mul :: "jsnum \<Rightarrow> jsnum \<Rightarrow> jsnum" where
  "js_mul (Num a) (Num b) = Num (a * b)"
| "js_mul _ _ = NaN"

fun js_div :: "jsnum \<Rightarrow> jsnum \<Rightarrow> jsnum" where
  "js_div (Num a) (Num b) = (if b = 0 then NaN else Num (a / b))"
| "js_div _ _ = NaN"

text \<open>The remainder operator \<open>%\<close> truncates the quotient, so the result has the sign of the dividend.\<close>

fun js_rem :: "jsnum \<Rightarrow> jsnum \<Rightarrow> jsnum" where
  "js_rem (Num a) (Num b) = (if b = 0 then NaN else Num (a - b * of_int (trunc0 (a / b))))"
| "js_rem _ _ = NaN"

fun js_abs :: "jsnum \<Rightarrow> jsnum" where
  "js_abs (Num a) = Num \<bar>a\<bar>"
| "js_abs NaN = NaN"

text \<open>Every comparison with \<open>NaN\<close> is false.\<close>

fun js_lt :: "jsnum \<Rightarrow> jsnum \<Rightarrow> bool" where
  "js_lt (Num a) (Num b) = (a < b)"
| "js_lt _ _ = False"

fun js_le :: "jsnum \<Rightarrow> jsnum \<Rightarrow> bool" where
  "js_le (Num a) (Num b) = (a \<le> b)"
| "js_le _ _ = False"

fun js_gt :: "jsnum \<Rightarrow> jsnum \<Rightarrow> bool" where
  "js_gt (Num a) (Num b) = (a > b)"
| "js_gt _ _ = False"

fun js_ge :: "jsnum \<Rightarrow> jsnum \<Rightarrow> bool" where
  "js_ge (Num a) (Num b) = (a \<ge> b)"
| "js_ge _ _ = False"

section \<open>Rounding to the nearest double\<close>

text \<open>
  Every arithmetic operation on JavaScript numbers returns the double nearest to the
  exact result, a tie going to the double whose last significand bit is even. A double
  has a significand of 53 bits, and an exponent of at least -1022: below \<open>2^-1022\<close> the
  doubles are the multiples of \<open>2^-1074\<close>. \<open>floorLog2 x\<close> is the exponent \<open>e\<close> of a positive
  \<open>x\<close>, with \<open>2^e \<le> x < 2^(e+1)\<close>. The two zeros are not told apart; a result beyond the
  largest double is kept as the rounded real instead of an infinity.
\<close>

function bitLength :: "int \<Rightarrow> int" where
  "bitLength n = (if n \<le> 0 then 0 else 1 + bitLength (n div 2))"
  by pat_completeness auto
termination
  by (relation "measure nat") auto

declare bitLength.simps [simp del]

definition floorLog2 :: "real \<Rightarrow> int" where
  "floorLog2 x = (if 1 \<le> x then bitLength \<lfloor>x\<rfloor> - 1 else - bitLength (\<lceil>1 / x\<rceil> - 1))"

definition pow2 :: "int \<Rightarrow> real" where
  "pow2 k = (if 0 \<le> k then 2 ^ nat k else 1 / 2 ^ nat (- k))"

definition roundHalfEven :: "real \<Rightarrow> int" where
  "roundHalfEven x =
     (let f = \<lfloor>x\<rfloor>; d = x - of_int f in
      if d < 1/2 then f else if 1/2 < d then f + 1 else if even f then f else f + 1)"

definition toDouble :: "real \<Rightarrow> real" where
  "toDouble x =
     (if x = 0 then 0
      else let q = pow2 (max (floorLog2 \<bar>x\<bar>) (-1022) - 52) in
           of_int (roundHalfEven (x / q)) * q)"

fun dbl :: "jsnum \<Rightarrow> jsnum" where
  "dbl NaN = NaN"
| "dbl (Num x) = Num (toDouble x)"

definition dbl_add :: "jsnum \<Rightarrow> jsnum \<Rightarrow> jsnum" where
  "dbl_add a b = dbl (js_add a b)"

definition dbl_sub :: "jsnum \<Rightarrow> jsnum \<Rightarrow> jsnum" where
  "dbl_sub a b = dbl (js_sub a b)"

definition dbl_mul :: "jsnum \<Rightarrow> jsnum \<Rightarrow> jsnum" where
  "dbl_mul a b = dbl (js_mul a b)"

definition dbl_div :: "jsnum \<Rightarrow> jsnum \<Rightarrow> jsnum" where
  "dbl_div a b = dbl (js_div a b)"

section \<open>Event root-finder: \<open>findExactMoment\<close>\<close>

text \<open>
  A valid \<open>Date\<close> is its time value, an integer number of milliseconds. \<open>new Date(x)\<close>
  truncates a fractional \<open>x\<close> towards zero. The check function is a pure predicate on
  dates. The \<open>while\<close> loop may run forever, so its model returns \<open>None\<close> when it does;
  the result of the loop is the lower end of the final bracket.
\<close>

partial_function (option) findExactMoment_loop ::
  "(int \<Rightarrow> bool) \<Rightarrow> real \<Rightarrow> int \<Rightarrow> int \<Rightarrow> int option" where
  "findExactMoment_loop checkFunction precisionMs low high =
     (if real_of_int (high - low) > precisionMs then
        (let mid = trunc0 ((real_of_int low + real_of_int high) / 2) in
         if checkFunction mid
         then findExactMoment_loop checkFunction precisionMs low mid
         else findExactMoment_loop checkFunction precisionMs mid high)
      else Some low)"

declare findExactMoment_loop.simps [code]

text \<open>
  The outer \<open>option\<close> is termination (\<open>None\<close>: the loop never ends), the inner one is the
  returned \<open>Date\<close> or \<open>null\<close>.
\<close>

definition findExactMoment :: "int \<Rightarrow> int \<Rightarrow> (int \<Rightarrow> bool) \<Rightarrow> real \<Rightarrow> int option option" where
  "findExactMoment startDate endDate checkFunction precision =
     (let low = startDate; high = endDate; precisionMs = precision * 60 * 1000 in
      if checkFunction low then Some (Some low)
      else if \<not> checkFunction high then Some None
      else map_option Some (findExactMoment_loop checkFunction precisionMs low high))"

section \<open>Angular geometry\<close>

text \<open>The same function in the transit calculator and in the astrological calculator.\<close>

definition calculateAngleBetweenPlanets :: "jsnum \<Rightarrow> jsnum \<Rightarrow> jsnum" where
  "calculateAngleBetweenPlanets long1 long2 =
     (let angle = js_abs (js_sub long1 long2) in
      if js_gt angle (Num 180) then js_sub (Num 360) angle else angle)"

section \<open>House resolver\<close>

text \<open>
  A house of the cusp array; the resolver reads its \<open>cusp\<close> only (the sign and degree
  strings of a house are left out). Reading an array past its end gives \<open>undefined\<close>.
\<close>

record house_cusp =
  house_no :: nat
  cusp :: jsnum

definition js_nth :: "jsnum list \<Rightarrow> nat \<Rightarrow> jsnum" where
  "js_nth xs i = (if i < length xs then xs ! i else NaN)"

definition normalizeLongitude :: "jsnum \<Rightarrow> jsnum" where
  "normalizeLongitude planetLongitude =
     (let normalizedLong = js_rem planetLongitude (Num 360) in
      if js_lt normalizedLong (Num 0) then js_add normalizedLong (Num 360) else normalizedLong)"

text \<open>The test of the loop body for house \<open>i + 1\<close>.\<close>

definition houseContains :: "jsnum \<Rightarrow> jsnum list \<Rightarrow> nat \<Rightarrow> bool" where
  "houseContains normalizedLong cusps i =
     (let currentCusp = js_nth cusps i;
          nextCusp = js_nth cusps ((i + 1) mod 12) in
      if js_lt nextCusp currentCusp
      then js_ge normalizedLong currentCusp \<or> js_lt normalizedLong nextCusp
      else js_ge normalizedLong currentCusp \<and> js_lt normalizedLong nextCusp)"

text \<open>
  The loop over \<open>i = 0, ..., 11\<close> returns at the first house that contains the longitude;
  \<open>None\<close> is a loop that ends without a return, where the source falls back to house 1.
\<close>

definition houseSearch :: "jsnum \<Rightarrow> house_cusp list \<Rightarrow> nat option" where
  "houseSearch planetLongitude houseCusps =
     (let normalizedLong = normalizeLongitude planetLongitude;
          cusps = map cusp houseCusps in
      map_option (\<lambda>i. i + 1) (find (houseContains normalizedLong cusps) [0..<12]))"

definition determinePlanetHouse :: "jsnum \<Rightarrow> house_cusp list \<Rightarrow> nat" where
  "determinePlanetHouse planetLongitude houseCusps =
     (case houseSearch planetLongitude houseCusps of Some number \<Rightarrow> number | None \<Rightarrow> 1)"

subsection \<open>Well-formed cusps\<close>

text \<open>
  The house test on plain reals for a circle of \<open>n\<close> cusps, and the cusps of a chart:
  twelve longitudes that, read from some house on, do not decrease and end above the
  first, so that they go once around the circle and pass \<open>0\<close> degrees between two of
  them (for cusps of \<open>[0, 360)\<close> this says that the forward arcs from each cusp to the
  next add up to 360 degrees). The evenly spaced cusps of Equal houses are an example.
\<close>

definition housePred :: "real \<Rightarrow> real list \<Rightarrow> nat \<Rightarrow> nat \<Rightarrow> bool" where
  "housePred x d n j =
     (if d ! ((j + 1) mod n) < d ! j
      then x \<ge> d ! j \<or> x < d ! ((j + 1) mod n)
      else d ! j \<le> x \<and> x < d ! ((j + 1) mod n))"

definition circular_cusps :: "real list \<Rightarrow> bool" where
  "circular_cusps cs \<longleftrightarrow>
     length cs = 12
     \<and> (\<exists>k. k < 12 \<and> sorted (rotate k cs) \<and> rotate k cs ! 0 < rotate k cs ! 11)"

definition equalHouses :: "house_cusp list" where
  "equalHouses = map (\<lambda>i. \<lparr>house_no = i + 1, cusp = Num (30 * real i)\<rparr>) [0..<12]"

section \<open>Aspect catalog, orb policy and matcher\<close>

record aspect_def =
  angle :: jsnum
  name :: string

record planet_orbs =
  major :: jsnum
  minor :: jsnum

text \<open>
  The tables are objects with string keys; \<open>Object.entries\<close> lists them in insertion
  order. The \<open>symbol\<close> of an aspect is left out. A body is looked up by its name, which
  is not the name of a property that every object inherits.
\<close>

definition transitAspects :: "(string \<times> aspect_def) list" where
  "transitAspects =
     [(''CONJUNCTION'', \<lparr>angle = Num 0, name = ''conjunction''\<rparr>),
      (''OPPOSITION'', \<lparr>angle = Num 180, name = ''opposition''\<rparr>),
      (''TRINE'', \<lparr>angle = Num 120, name = ''trine''\<rparr>),
      (''SQUARE'', \<lparr>angle = Num 90, name = ''square''\<rparr>),
      (''SEXTILE'', \<lparr>angle = Num 60, name = ''sextile''\<rparr>)]"

definition majorAspects :: "string list" where
  "majorAspects = [''conjunction'', ''opposition'', ''trine'', ''square'', ''sextile'']"

definition defaultOrbs :: planet_orbs where
  "defaultOrbs = \<lparr>major = Num 1, minor = Num (1/2)\<rparr>"

subsection \<open>Transit calculator\<close>

definition transitOrbs :: "(string \<times> planet_orbs) list" where
  "transitOrbs =
     [(''SATURN'', \<lparr>major = Num 2, minor = Num 1\<rparr>),
      (''URANUS'', \<lparr>major = Num 2, minor = Num 1\<rparr>),
      (''NEPTUNE'', \<lparr>major = Num 2, minor = Num 1\<rparr>),
      (''PLUTO'', \<lparr>major = Num 2, minor = Num 1\<rparr>),
      (''JUPITER'', \<lparr>major = Num (3/2), minor = Num (1/2)\<rparr>),
      (''SUN'', \<lparr>major = Num 1, minor = Num (1/2)\<rparr>),
      (''MOON'', \<lparr>major = Num 1, minor = Num (1/2)\<rparr>),
      (''MERCURY'', \<lparr>major = Num 1, minor = Num (1/2)\<rparr>),
      (''VENUS'', \<lparr>major = Num 1, minor = Num (1/2)\<rparr>),
      (''MARS'', \<lparr>major = Num 1, minor = Num (1/2)\<rparr>),
      (''NORTH_NODE'', \<lparr>major = Num 1, minor = Num (1/2)\<rparr>),
      (''CHIRON'', \<lparr>major = Num 1, minor = Num (1/2)\<rparr>),
      (''LILITH'', \<lparr>major = Num 1, minor = Num (1/2)\<rparr>)]"

definition getTransitOrb :: "string \<Rightarrow> string \<Rightarrow> jsnum" where
  "getTransitOrb transitPlanet aspectName =
     (let planetOrbs = (case map_of transitOrbs transitPlanet of
                          Some orbs \<Rightarrow> orbs | None \<Rightarrow> defaultOrbs);
          isMajorAspect = (aspectName \<in> set majorAspects) in
      if isMajorAspect then major planetOrbs else minor planetOrbs)"

record aspect_data =
  aspect :: aspect_def
  orb :: jsnum
  exactness :: jsnum
  targetAngle :: jsnum

text \<open>
  The loop over the entries of \<open>transitAspects\<close>: the orb is asked for with the key of the
  entry (\<open>aspectName\<close>), and the first entry within its orb is returned.
\<close>

fun findTransitAspect_loop :: "jsnum \<Rightarrow> string \<Rightarrow> (string \<times> aspect_def) list \<Rightarrow> aspect_data option" where
  "findTransitAspect_loop angle' transitPlanet [] = None"
| "findTransitAspect_loop angle' transitPlanet ((aspectName, aspectData) # entries) =
     (let orb' = getTransitOrb transitPlanet aspectName;
          angleDiff = js_abs (js_sub angle' (angle aspectData)) in
      if js_le angleDiff orb'
      then Some \<lparr>aspect = aspectData, orb = angleDiff,
                 exactness = js_mul (js_div (js_sub orb' angleDiff) orb') (Num 100),
                 targetAngle = angle aspectData\<rparr>
      else findTransitAspect_loop angle' transitPlanet entries)"

definition findTransitAspect :: "jsnum \<Rightarrow> jsnum \<Rightarrow> string \<Rightarrow> aspect_data option" where
  "findTransitAspect transitLong natalLong transitPlanet =
     findTransitAspect_loop (calculateAngleBetweenPlanets transitLong natalLong)
       transitPlanet transitAspects"

subsection \<open>Astrological calculator\<close>

definition transitOrbs_AC :: "(string \<times> planet_orbs) list" where
  "transitOrbs_AC =
     [(''Saturn'', \<lparr>major = Num 2, minor = Num 1\<rparr>),
      (''Uranus'', \<lparr>major = Num 2, minor = Num 1\<rparr>),
      (''Neptune'', \<lparr>major = Num 2, minor = Num 1\<rparr>),
      (''Pluto'', \<lparr>major = Num 2, minor = Num 1\<rparr>),
      (''Jupiter'', \<lparr>major = Num (3/2), minor = Num (1/2)\<rparr>),
      (''Sun'', \<lparr>major = Num 1, minor = Num (1/2)\<rparr>),
      (''Moon'', \<lparr>major = Num 1, minor = Num (1/2)\<rparr>),
      (''Mercury'', \<lparr>major = Num 1, minor = Num (1/2)\<rparr>),
      (''Venus'', \<lparr>major = Num 1, minor = Num (1/2)\<rparr>),
      (''Mars'', \<lparr>major = Num 1, minor = Num (1/2)\<rparr>),
      (''NNode'', \<lparr>major = Num 1, minor = Num (1/2)\<rparr>),
      (''SNode'', \<lparr>major = Num 1, minor = Num (1/2)\<rparr>),
      (''Chiron'', \<lparr>major = Num 1, minor = Num (1/2)\<rparr>),
      (''Lilith'', \<lparr>major = Num 1, minor = Num (1/2)\<rparr>)]"

definition getTransitOrb_AC :: "string \<Rightarrow> string \<Rightarrow> jsnum" where
  "getTransitOrb_AC transitPlanet aspectName =
     (let planetOrbs = (case map_of transitOrbs_AC transitPlanet of
                          Some orbs \<Rightarrow> orbs | None \<Rightarrow> defaultOrbs) in
      if aspectName \<in> set majorAspects then major planetOrbs else minor planetOrbs)"

record aspect_data_AC =
  aspect_AC :: aspect_def
  orb_AC :: jsnum
  targetAngle_AC :: jsnum

text \<open>Here the orb is asked for with the \<open>name\<close> of the aspect.\<close>

fun findTransitAspect_AC_loop :: "jsnum \<Rightarrow> string \<Rightarrow> (string \<times> aspect_def) list \<Rightarrow> aspect_data_AC option" where
  "findTransitAspect_AC_loop angle' transitPlanet [] = None"
| "findTransitAspect_AC_loop angle' transitPlanet ((aspectName, aspectData) # entries) =
     (let orb' = getTransitOrb_AC transitPlanet (name aspectData);
          angleDiff = js_abs (js_sub angle' (angle aspectData)) in
      if js_le angleDiff orb'
      then Some \<lparr>aspect_AC = aspectData, orb_AC = angleDiff, targetAngle_AC = angle aspectData\<rparr>
      else findTransitAspect_AC_loop angle' transitPlanet entries)"

definition findTransitAspect_AC :: "jsnum \<Rightarrow> jsnum \<Rightarrow> string \<Rightarrow> aspect_data_AC option" where
  "findTransitAspect_AC transitLong natalLong transitPlanet =
     findTransitAspect_AC_loop (calculateAngleBetweenPlanets transitLong natalLong)
       transitPlanet transitAspects"

section \<open>Positions and dates\<close>

text \<open>
  A position of a body. The transit calculator builds positions without a
  \<open>longitudeSpeed\<close>, and the chart angles have none either: the field is \<open>NaN\<close> then. The
  sign is \<open>undefined\<close> (\<open>None\<close>) when the sign table is read out of range, and the house is
  set only when houses were given. The formatted degree string is left out.
\<close>

record position =
  longitude :: jsnum
  longitudeSpeed :: jsnum
  sign :: "string option"
  house :: "nat option"

text \<open>
  A \<open>Date\<close> is its time value in milliseconds or is invalid; \<open>new Date(v)\<close> clips: a \<open>NaN\<close>
  or a value beyond 8.64e15 in absolute value gives an invalid date, any other value is
  truncated to an integer.
\<close>

datatype jsdate = InvalidDate | DateMs int

fun newDate :: "jsnum \<Rightarrow> jsdate" where
  "newDate NaN = InvalidDate"
| "newDate (Num v) = (if \<bar>v\<bar> > 8640000000000000 then InvalidDate else DateMs (trunc0 v))"

fun getTime :: "jsdate \<Rightarrow> jsnum" where
  "getTime InvalidDate = NaN"
| "getTime (DateMs t) = Num (of_int t)"

section \<open>Motion classifier and peak estimator\<close>

subsection \<open>Transit calculator\<close>

definition isTransitApplying :: "position \<Rightarrow> position \<Rightarrow> jsnum \<Rightarrow> bool" where
  "isTransitApplying transitPos natalPos targetAngle' =
     (let speed = longitudeSpeed transitPos;
          currentAngle = calculateAngleBetweenPlanets (longitude transitPos) (longitude natalPos);
          futureTransitLong = js_rem (js_add (longitude transitPos) speed) (Num 360);
          futureAngle = calculateAngleBetweenPlanets futureTransitLong (longitude natalPos) in
      js_lt (js_abs (js_sub futureAngle targetAngle')) (js_abs (js_sub currentAngle targetAngle')))"

text \<open>
  The estimate is a number of milliseconds, and the last digit of it depends on the
  rounding of each operation; the estimator is therefore computed with the rounded
  operations, the angle between the two longitudes included. The literal \<open>0.001\<close> is the
  double nearest to it. A result beyond the largest double can arise here only before
  the comparison of the days with the bound, which it exceeds as the infinity of the
  code does.
\<close>

definition calculateAngleBetweenPlanets_dbl :: "jsnum \<Rightarrow> jsnum \<Rightarrow> jsnum" where
  "calculateAngleBetweenPlanets_dbl long1 long2 =
     (let angle = js_abs (dbl_sub long1 long2) in
      if js_gt angle (Num 180) then dbl_sub (Num 360) angle else angle)"

definition estimatePeakDate :: "position \<Rightarrow> position \<Rightarrow> jsnum \<Rightarrow> jsdate \<Rightarrow> jsdate option" where
  "estimatePeakDate transitPos natalPos targetAngle' currentDate =
     (if js_lt (js_abs (longitudeSpeed transitPos)) (Num (toDouble (1/1000))) then None
      else
        let currentAngle =
              calculateAngleBetweenPlanets_dbl (longitude transitPos) (longitude natalPos);
            angleDifference = dbl_sub targetAngle' currentAngle;
            adjustedDiff =
              (if js_gt (js_abs angleDifference) (Num 180)
               then (if js_gt angleDifference (Num 0)
                     then dbl_sub angleDifference (Num 360)
                     else dbl_add angleDifference (Num 360))
               else angleDifference);
            daysToExact = dbl_div adjustedDiff (longitudeSpeed transitPos) in
        if js_gt (js_abs daysToExact) (Num 365) then None
        else Some (newDate (dbl_add (getTime currentDate)
                    (dbl_mul (dbl_mul (dbl_mul (dbl_mul daysToExact (Num 24)) (Num 60)) (Num 60))
                       (Num 1000)))))"

subsection \<open>Astrological calculator\<close>

definition isTransitApplying_AC :: "position \<Rightarrow> position \<Rightarrow> jsnum \<Rightarrow> bool" where
  "isTransitApplying_AC transitPos natalPos targetAngle' =
     (let speed = longitudeSpeed transitPos;
          currentAngle = calculateAngleBetweenPlanets (longitude transitPos) (longitude natalPos);
          futureTransitLong =
            js_rem (js_add (longitude transitPos) (js_div speed (Num 24))) (Num 360);
          futureAngle = calculateAngleBetweenPlanets futureTransitLong (longitude natalPos) in
      js_lt (js_abs (js_sub futureAngle targetAngle')) (js_abs (js_sub currentAngle targetAngle')))"

definition estimatePeakDate_AC :: "position \<Rightarrow> position \<Rightarrow> jsnum \<Rightarrow> jsdate \<Rightarrow> jsdate option" where
  "estimatePeakDate_AC transitPos natalPos targetAngle' currentDate =
     (if js_lt (js_abs (longitudeSpeed transitPos)) (Num (toDouble (1/1000))) then None
      else
        let currentAngle =
              calculateAngleBetweenPlanets_dbl (longitude transitPos) (longitude natalPos);
            angleDifference = dbl_sub targetAngle' currentAngle;
            adjustedDiff =
              (if js_gt (js_abs angleDifference) (Num 180)
               then (if js_gt angleDifference (Num 0)
                     then dbl_sub angleDifference (Num 360)
                     else dbl_add angleDifference (Num 360))
               else angleDifference);
            daysToExact = dbl_div adjustedDiff (longitudeSpeed transitPos) in
        if js_gt (js_abs daysToExact) (dbl_mul (Num 365) (Num 5)) then None
        else Some (newDate (dbl_add (getTime currentDate)
                    (dbl_mul (dbl_mul (dbl_mul (dbl_mul daysToExact (Num 24)) (Num 60)) (Num 60))
                       (Num 1000)))))"

subsection \<open>The shorter arc between two longitudes\<close>

text \<open>
  The geometric angle between two longitudes, the distance of their difference from the
  nearest multiple of 360 degrees, and the applying test stated with it: a step of the
  moving body along its signed speed brings this angle strictly closer to the target.
\<close>

definition shortestArc :: "real \<Rightarrow> real \<Rightarrow> real" where
  "shortestArc a b = \<bar>a - b - 360 * of_int (round ((a - b) / 360))\<bar>"

definition applyingByArc :: "real \<Rightarrow> real \<Rightarrow> real \<Rightarrow> real \<Rightarrow> bool" where
  "applyingByArc lon step natalLon target \<longleftrightarrow>
     \<bar>shortestArc (lon + step) natalLon - target\<bar> < \<bar>shortestArc lon natalLon - target\<bar>"

subsection \<open>The estimate on plain reals\<close>

text \<open>
  The quantities of the peak estimator for numeric inputs: the angle between the two
  longitudes, the adjustment of the difference to the target, and the days to exactness.
\<close>

definition angleDeg :: "real \<Rightarrow> real \<Rightarrow> real" where
  "angleDeg a b = (if \<bar>a - b\<bar> > 180 then 360 - \<bar>a - b\<bar> else \<bar>a - b\<bar>)"

definition foldedAngleDiff :: "real \<Rightarrow> real" where
  "foldedAngleDiff d = (if \<bar>d\<bar> > 180 then (if d > 0 then d - 360 else d + 360) else d)"

definition daysToExact :: "real \<Rightarrow> real \<Rightarrow> real \<Rightarrow> real \<Rightarrow> real" where
  "daysToExact a b t s = foldedAngleDiff (t - angleDeg a b) / s"





section \<open>Solar return solver\<close>

text \<open>
  The result of a Swiss Ephemeris query for the Sun with speed; a query that throws is
  \<open>None\<close>. The solver starts from the Julian day of the birthday in the target year,
  which the caller's date arithmetic and \<open>swe_julday\<close> provide, and the Julian day it
  ends with is what \<open>julianDayToDate\<close> converts; both conversions are outside the model.
  Every error of the loop is rethrown by the enclosing \<open>catch\<close>.
\<close>

record calc_result =
  rflag :: jsnum
  result_longitude :: jsnum
  result_longitudeSpeed :: jsnum

datatype error = EphemerisThrew | CalcFailed | SpeedTooSmall

definition tolerance :: jsnum where
  "tolerance = Num (1/100000)"

definition maxIterations :: nat where
  "maxIterations = 20"

text \<open>The adjustment of the longitude difference in the loop body.\<close>

definition adjustLongitudeDiff :: "jsnum \<Rightarrow> jsnum" where
  "adjustLongitudeDiff longitudeDiff =
     (if js_gt longitudeDiff (Num 180) then js_sub longitudeDiff (Num 360)
      else if js_lt longitudeDiff (Num (-180)) then js_add longitudeDiff (Num 360)
      else longitudeDiff)"

text \<open>
  The \<open>for\<close> loop with its counter \<open>i\<close>. Beside the outcome, the model returns how many
  times the ephemeris was queried, that is how many iterations were run.
\<close>

function findSolarReturnMoment_loop ::
  "(jsnum \<Rightarrow> calc_result option) \<Rightarrow> jsnum \<Rightarrow> nat \<Rightarrow> jsnum \<Rightarrow> (error + jsnum) \<times> nat" where
  "findSolarReturnMoment_loop swe_calc_ut natalSunLongitude i searchJD =
     (if i < maxIterations then
        (case swe_calc_ut searchJD of
           None \<Rightarrow> (Inl EphemerisThrew, i + 1)
         | Some result \<Rightarrow>
             if js_lt (rflag result) (Num 0) then (Inl CalcFailed, i + 1)
             else
               let currentLongitude = result_longitude result;
                   targetLongitude = natalSunLongitude;
                   longitudeDiff = adjustLongitudeDiff (js_sub targetLongitude currentLongitude) in
               if js_lt (js_abs longitudeDiff) tolerance then (Inr searchJD, i + 1)
               else
                 let sunSpeed = result_longitudeSpeed result in
                 if js_lt (js_abs sunSpeed) (Num (1/10000)) then (Inl SpeedTooSmall, i + 1)
                 else
                   let daysToTarget = js_div longitudeDiff sunSpeed in
                   findSolarReturnMoment_loop swe_calc_ut natalSunLongitude (i + 1)
                     (js_add searchJD daysToTarget))
      else (Inr searchJD, i))"
  by pat_completeness auto
termination
  by (relation "measure (\<lambda>(swe_calc_ut, natalSunLongitude, i, searchJD). maxIterations - i)") auto

definition findSolarReturnMoment ::
  "(jsnum \<Rightarrow> calc_result option) \<Rightarrow> jsnum \<Rightarrow> jsnum \<Rightarrow> (error + jsnum) \<times> nat" where
  "findSolarReturnMoment swe_calc_ut natalSunLongitude searchJD =
     findSolarReturnMoment_loop swe_calc_ut natalSunLongitude 0 searchJD"

subsection \<open>The iteration on plain reals\<close>

text \<open>
  A Sun that always answers, with a numeric longitude and a speed of at least 0.0001
  degrees per day in absolute value; the adjusted difference; one step of the iteration
  and its estimates; and the stopping test.
\<close>

definition sunEphemeris :: "(jsnum \<Rightarrow> calc_result option) \<Rightarrow> (real \<Rightarrow> real) \<Rightarrow> (real \<Rightarrow> real) \<Rightarrow> bool" where
  "sunEphemeris swe_calc_ut lon speed \<longleftrightarrow>
     (\<forall>jd. \<exists>flag. swe_calc_ut (Num jd) =
                Some \<lparr>rflag = Num flag, result_longitude = Num (lon jd),
                      result_longitudeSpeed = Num (speed jd)\<rparr>
              \<and> 0 \<le> flag \<and> 1/10000 \<le> \<bar>speed jd\<bar>)"

definition adjustedDiff :: "real \<Rightarrow> real" where
  "adjustedDiff d = (if d > 180 then d - 360 else if d < -180 then d + 360 else d)"

definition solarStep :: "(real \<Rightarrow> real) \<Rightarrow> (real \<Rightarrow> real) \<Rightarrow> real \<Rightarrow> real \<Rightarrow> real" where
  "solarStep lon speed target jd = jd + adjustedDiff (target - lon jd) / speed jd"

definition solarEstimate :: "(real \<Rightarrow> real) \<Rightarrow> (real \<Rightarrow> real) \<Rightarrow> real \<Rightarrow> real \<Rightarrow> nat \<Rightarrow> real" where
  "solarEstimate lon speed target jd k = (solarStep lon speed target ^^ k) jd"

definition solarConverged :: "(real \<Rightarrow> real) \<Rightarrow> real \<Rightarrow> real \<Rightarrow> bool" where
  "solarConverged lon target jd \<longleftrightarrow> \<bar>adjustedDiff (target - lon jd)\<bar> < 1/100000"

declare findSolarReturnMoment_loop.simps [simp del]

subsection \<open>The iteration step by step\<close>

text \<open>
  What one iteration does at an estimate, for any ephemeris: the query throws, the flag
  is negative, the adjusted difference is within the tolerance, the speed is below 0.0001
  degrees per day, or the estimate advances by the difference divided by the speed. The
  estimates of the iteration follow the advances, and a step that does not advance
  ends the solver with an error or with the estimate it stands at.
\<close>

datatype step_outcome = Throws | Fails | Converged | TooSlow | Advances jsnum

definition solarStepOutcome ::
  "(jsnum \<Rightarrow> calc_result option) \<Rightarrow> jsnum \<Rightarrow> jsnum \<Rightarrow> step_outcome" where
  "solarStepOutcome swe_calc_ut target jd =
     (case swe_calc_ut jd of
        None \<Rightarrow> Throws
      | Some result \<Rightarrow>
          if js_lt (rflag result) (Num 0) then Fails
          else if js_lt (js_abs (adjustLongitudeDiff (js_sub target (result_longitude result))))
                    tolerance
          then Converged
          else if js_lt (js_abs (result_longitudeSpeed result)) (Num (1/10000)) then TooSlow
          else Advances (js_add jd
                 (js_div (adjustLongitudeDiff (js_sub target (result_longitude result)))
                    (result_longitudeSpeed result))))"

fun advances :: "step_outcome \<Rightarrow> bool" where
  "advances (Advances jd) = True"
| "advances _ = False"

fun solarNext :: "step_outcome \<Rightarrow> jsnum \<Rightarrow> jsnum" where
  "solarNext (Advances jd') jd = jd'"
| "solarNext _ jd = jd"

definition solarTrace :: "(jsnum \<Rightarrow> calc_result option) \<Rightarrow> jsnum \<Rightarrow> jsnum \<Rightarrow> nat \<Rightarrow> jsnum" where
  "solarTrace swe_calc_ut target jd k =
     ((\<lambda>x. solarNext (solarStepOutcome swe_calc_ut target x) x) ^^ k) jd"

fun solarStop :: "step_outcome \<Rightarrow> jsnum \<Rightarrow> error + jsnum" where
  "solarStop Throws jd = Inl EphemerisThrew"
| "solarStop Fails jd = Inl CalcFailed"
| "solarStop TooSlow jd = Inl SpeedTooSmall"
| "solarStop Converged jd = Inr jd"
| "solarStop (Advances jd') jd = Inr jd"

section \<open>Transit calculator: positions, transits and summary\<close>

text \<open>
  \<open>parseFloat(x.toFixed(n))\<close> rounds to \<open>n\<close> decimals, a half away from zero. The sign of
  a longitude is read from the table of twelve signs; an index outside the table gives
  \<open>undefined\<close>.
\<close>

fun roundTo :: "nat \<Rightarrow> jsnum \<Rightarrow> jsnum" where
  "roundTo n NaN = NaN"
| "roundTo n (Num x) = Num (sgn x * of_int \<lfloor>\<bar>x\<bar> * 10 ^ n + 1/2\<rfloor> / 10 ^ n)"

definition signs :: "string list" where
  "signs = [''Aries'', ''Taurus'', ''Gemini'', ''Cancer'', ''Leo'', ''Virgo'',
            ''Libra'', ''Scorpio'', ''Sagittarius'', ''Capricorn'', ''Aquarius'', ''Pisces'']"

fun getZodiacSign :: "jsnum \<Rightarrow> string option" where
  "getZodiacSign NaN = None"
| "getZodiacSign (Num x) =
     (let i = \<lfloor>x / 30\<rfloor> in if 0 \<le> i \<and> i < 12 then Some (signs ! nat i) else None)"

text \<open>
  The bodies of the transit calculator, in the order of its table; the ephemeris is
  asked by name for the Julian day of the transit date, and a query that throws is
  \<open>None\<close>. The positions carry no \<open>longitudeSpeed\<close>: the line that would set it is
  commented out in the source.
\<close>

definition planets :: "string list" where
  "planets = [''Sun'', ''Moon'', ''Mercury'', ''Venus'', ''Mars'', ''Jupiter'', ''Saturn'',
              ''Uranus'', ''Neptune'', ''Pluto'', ''NNode'', ''Chiron'', ''Lilith'']"

definition calculatePlanetaryPositions ::
  "(string \<Rightarrow> calc_result option) \<Rightarrow> house_cusp list option \<Rightarrow> (string \<times> position) list" where
  "calculatePlanetaryPositions swe_calc_ut houses =
     List.map_filter
       (\<lambda>planetName.
          case swe_calc_ut planetName of
            None \<Rightarrow> None
          | Some result \<Rightarrow>
              if js_ge (rflag result) (Num 0)
              then Some (planetName,
                     \<lparr>longitude = roundTo 3 (result_longitude result),
                      longitudeSpeed = NaN,
                      sign = getZodiacSign (result_longitude result),
                      house = (case houses of
                                 None \<Rightarrow> None
                               | Some hs \<Rightarrow> Some (determinePlanetHouse (result_longitude result) hs))\<rparr>)
              else None)
       planets"

text \<open>
  An aspect of the transit list (its fields \<open>aspect\<close>, \<open>orb\<close> and \<open>exactness\<close> carry the
  suffix \<open>_T\<close> here; \<open>aspect\<close> holds the name of the aspect) and the summary (\<open>total\<close> and
  \<open>applying\<close> carry the suffix \<open>_S\<close>).
\<close>

record transit_aspect =
  transitingPlanet :: string
  transitingSign :: "string option"
  natalPlanet :: string
  natalSign :: "string option"
  aspect_T :: string
  orb_T :: jsnum
  exactness_T :: jsnum
  applying :: bool
  peakDate :: "jsdate option"

record transit_summary =
  total_S :: nat
  applying_S :: nat
  separating :: nat
  exact :: nat
  byAspect :: "string \<rightharpoonup> nat"
  byTransitingPlanet :: "string \<rightharpoonup> nat"
  byNatalPlanet :: "string \<rightharpoonup> nat"

definition bump :: "(string \<rightharpoonup> nat) \<Rightarrow> string \<Rightarrow> (string \<rightharpoonup> nat)" where
  "bump m k = m(k \<mapsto> (case m k of None \<Rightarrow> 0 | Some c \<Rightarrow> c) + 1)"

text \<open>
  \<open>aspect.aspect\<close> is a string here, so \<open>aspect.aspect.name\<close> is \<open>undefined\<close> and the
  histogram by aspect counts under the key \<open>undefined\<close>.
\<close>

definition updateTransitSummary :: "transit_summary \<Rightarrow> transit_aspect \<Rightarrow> transit_summary" where
  "updateTransitSummary summary aspect' =
     summary
       \<lparr>total_S := total_S summary + 1,
        applying_S := (if applying aspect' then applying_S summary + 1 else applying_S summary),
        separating := (if applying aspect' then separating summary else separating summary + 1),
        exact := (if js_lt (orb_T aspect') (Num (1/2)) then exact summary + 1 else exact summary),
        byAspect := bump (byAspect summary) ''undefined'',
        byTransitingPlanet := bump (byTransitingPlanet summary) (transitingPlanet aspect'),
        byNatalPlanet := bump (byNatalPlanet summary) (natalPlanet aspect')\<rparr>"

record transits =
  transitPositions :: "(string \<times> position) list"
  aspects :: "transit_aspect list"
  summary :: transit_summary

definition emptySummary :: transit_summary where
  "emptySummary =
     \<lparr>total_S = 0, applying_S = 0, separating = 0, exact = 0,
      byAspect = Map.empty, byTransitingPlanet = Map.empty, byNatalPlanet = Map.empty\<rparr>"

text \<open>The body of the two nested loops for one transiting and one natal body.\<close>

definition calculateTransits_body ::
  "jsdate \<Rightarrow> string \<times> position \<Rightarrow> string \<times> position \<Rightarrow> transits \<Rightarrow> transits" where
  "calculateTransits_body transitDate transitEntry natalEntry transits' =
     (let (transitPlanet, transitPos) = transitEntry;
          (natalPlanet', natalPos) = natalEntry in
      case findTransitAspect (longitude transitPos) (longitude natalPos) transitPlanet of
        None \<Rightarrow> transits'
      | Some aspectData \<Rightarrow>
          let aspect' =
                \<lparr>transitingPlanet = transitPlanet,
                 transitingSign = sign transitPos,
                 natalPlanet = natalPlanet',
                 natalSign = sign natalPos,
                 aspect_T = name (aspect aspectData),
                 orb_T = orb aspectData,
                 exactness_T = exactness aspectData,
                 applying = isTransitApplying transitPos natalPos (targetAngle aspectData),
                 peakDate = estimatePeakDate transitPos natalPos (targetAngle aspectData) transitDate\<rparr>
          in transits'\<lparr>aspects := aspects transits' @ [aspect'],
                       summary := updateTransitSummary (summary transits') aspect'\<rparr>)"

text \<open>
  The sort by \<open>a.orb - b.orb\<close> is stable and ascending on numeric orbs; every orb of the
  list is numeric, and the key of a \<open>NaN\<close> is set to 0 only to keep the function total.
\<close>

fun orbValue :: "jsnum \<Rightarrow> real" where
  "orbValue (Num r) = r"
| "orbValue NaN = 0"

definition sortByOrb :: "transit_aspect list \<Rightarrow> transit_aspect list" where
  "sortByOrb xs = sort_key (\<lambda>a. orbValue (orb_T a)) xs"

definition calculateTransits ::
  "(string \<Rightarrow> calc_result option) \<Rightarrow> (string \<times> position) list \<Rightarrow> house_cusp list option \<Rightarrow> jsdate
     \<Rightarrow> transits" where
  "calculateTransits swe_calc_ut natalPositions natalHouses transitDate =
     (let positions = calculatePlanetaryPositions swe_calc_ut natalHouses;
          transits0 = \<lparr>transitPositions = positions, aspects = [], summary = emptySummary\<rparr>;
          transits1 =
            fold (\<lambda>transitEntry.
                    fold (\<lambda>natalEntry. calculateTransits_body transitDate transitEntry natalEntry)
                      natalPositions)
              positions transits0
      in transits1\<lparr>aspects := sortByOrb (aspects transits1)\<rparr>)"

subsection \<open>Consistency of the transit record\<close>

text \<open>What the loops keep true of the transit record they build.\<close>

definition summaryConsistent :: "transits \<Rightarrow> bool" where
  "summaryConsistent t \<longleftrightarrow>
     total_S (summary t) = length (aspects t)
     \<and> applying_S (summary t) + separating (summary t) = total_S (summary t)
     \<and> exact (summary t) = length (filter (\<lambda>a. js_lt (orb_T a) (Num (1/2))) (aspects t))
     \<and> list_all (\<lambda>a. \<exists>r. orb_T a = Num r \<and> 0 \<le> r) (aspects t)"

section \<open>Astrological calculator: aspect builders\<close>

subsection \<open>Aspects of two charts\<close>

text \<open>
  An aspect between two charts. The two properties named by \<open>index1\<close> and \<open>index2\<close> are
  the fields \<open>point1\<close> and \<open>point2\<close> (the two names are different and are not names of
  the other properties); \<open>timing\<close> holds \<open>applying\<close> and \<open>peakDate\<close>, which only a transit
  aspect has; the \<open>title\<close> string is left out.
\<close>

record chart_point =
  planet :: string
  sign_P :: "string option"
  house_P :: "nat option"
  longitude_P :: jsnum

record cross_aspect =
  aspect_X :: string
  orb_X :: jsnum
  point1 :: chart_point
  point2 :: chart_point
  timing :: "(bool \<times> jsdate option) option"

definition calculateAspectsOfTwoCharts_body ::
  "bool \<Rightarrow> jsdate \<Rightarrow> string \<times> position \<Rightarrow> string \<times> position \<Rightarrow> cross_aspect list
     \<Rightarrow> cross_aspect list" where
  "calculateAspectsOfTwoCharts_body isTransit transitDate transitEntry natalEntry aspects' =
     (let (transit_planet, transit_position) = transitEntry;
          (natal_planet, natal_position) = natalEntry in
      case findTransitAspect_AC (longitude transit_position) (longitude natal_position)
             transit_planet of
        None \<Rightarrow> aspects'
      | Some aspectData \<Rightarrow>
          aspects' @
            [\<lparr>aspect_X = name (aspect_AC aspectData),
              orb_X = roundTo 2 (orb_AC aspectData),
              point1 = \<lparr>planet = transit_planet, sign_P = sign transit_position,
                         house_P = house transit_position,
                         longitude_P = longitude transit_position\<rparr>,
              point2 = \<lparr>planet = natal_planet, sign_P = sign natal_position,
                         house_P = house natal_position,
                         longitude_P = longitude natal_position\<rparr>,
              timing =
                (if isTransit
                 then Some (isTransitApplying_AC transit_position natal_position
                              (targetAngle_AC aspectData),
                            estimatePeakDate_AC transit_position natal_position
                              (targetAngle_AC aspectData) transitDate)
                 else None)\<rparr>])"

text \<open>
  The function returns the list in the order of insertion: its \<open>return aspects\<close> comes
  before the \<open>return aspects.sort(...)\<close>, which is never reached.
\<close>

definition calculateAspectsOfTwoCharts ::
  "(string \<times> position) list \<Rightarrow> (string \<times> position) list \<Rightarrow> bool \<Rightarrow> jsdate
     \<Rightarrow> cross_aspect list" where
  "calculateAspectsOfTwoCharts transitPositions' natalPositions isTransit transitDate =
     fold (\<lambda>transitEntry.
             fold (\<lambda>natalEntry.
                     calculateAspectsOfTwoCharts_body isTransit transitDate transitEntry natalEntry)
               natalPositions)
       transitPositions' []"

subsection \<open>Natal aspects\<close>

record natal_aspect_def = aspect_def +
  natal_orb :: jsnum

definition natalAspects :: "(string \<times> natal_aspect_def) list" where
  "natalAspects =
     [(''CONJUNCTION'', \<lparr>angle = Num 0, name = ''conjunction'', natal_orb = Num 8\<rparr>),
      (''OPPOSITION'', \<lparr>angle = Num 180, name = ''opposition'', natal_orb = Num 8\<rparr>),
      (''TRINE'', \<lparr>angle = Num 120, name = ''trine'', natal_orb = Num 8\<rparr>),
      (''SQUARE'', \<lparr>angle = Num 90, name = ''square'', natal_orb = Num 8\<rparr>),
      (''SEXTILE'', \<lparr>angle = Num 60, name = ''sextile'', natal_orb = Num 6\<rparr>)]"

fun findNatalAspect_loop :: "jsnum \<Rightarrow> (string \<times> natal_aspect_def) list \<Rightarrow> natal_aspect_def option" where
  "findNatalAspect_loop angle' [] = None"
| "findNatalAspect_loop angle' ((key, aspectData) # entries) =
     (if js_le (js_abs (js_sub angle' (angle aspectData))) (natal_orb aspectData)
      then Some aspectData
      else findNatalAspect_loop angle' entries)"

definition findNatalAspect :: "jsnum \<Rightarrow> natal_aspect_def option" where
  "findNatalAspect angle' = findNatalAspect_loop angle' natalAspects"

definition filterAspect :: "string \<Rightarrow> string \<Rightarrow> natal_aspect_def \<Rightarrow> bool" where
  "filterAspect planet1' planet2' aspect' =
     (\<not> ((planet1' = ''NNode'' \<or> planet2' = ''NNode'') \<and> name aspect' = ''opposition''))"

definition isNatalAspectApplying :: "position \<Rightarrow> position \<Rightarrow> jsnum \<Rightarrow> bool" where
  "isNatalAspectApplying planet1' planet2' aspectAngle =
     (let currentAngle = calculateAngleBetweenPlanets (longitude planet1') (longitude planet2');
          futureAngle = calculateAngleBetweenPlanets
             (js_add (longitude planet1') (js_div (longitudeSpeed planet1') (Num 24)))
             (js_add (longitude planet2') (js_div (longitudeSpeed planet2') (Num 24))) in
      js_lt (js_abs (js_sub futureAngle aspectAngle)) (js_abs (js_sub currentAngle aspectAngle)))"

record natal_aspect =
  planet1 :: string
  planet2 :: string
  aspect_N :: string
  angle_N :: jsnum
  orb_N :: jsnum
  applying_N :: bool

text \<open>The body of both loops of \<open>calculateNatalAspects\<close>, for two named positions.\<close>

definition natalAspectOf :: "string \<times> position \<Rightarrow> string \<times> position \<Rightarrow> natal_aspect option" where
  "natalAspectOf entry1 entry2 =
     (let (planet1', position1) = entry1;
          (planet2', position2) = entry2;
          angle' = calculateAngleBetweenPlanets (longitude position1) (longitude position2) in
      case findNatalAspect angle' of
        None \<Rightarrow> None
      | Some aspect' \<Rightarrow>
          if filterAspect planet1' planet2' aspect'
          then Some \<lparr>planet1 = planet1', planet2 = planet2', aspect_N = name aspect',
                     angle_N = angle aspect',
                     orb_N = roundTo 2 (js_abs (js_sub angle' (angle aspect'))),
                     applying_N = isNatalAspectApplying position1 position2 (angle aspect')\<rparr>
          else None)"

text \<open>
  The positions and the angles are objects with distinct keys, listed in insertion
  order. The first loop pairs each body with the later ones; the second pairs the angle
  of index \<open>i\<close> with the bodies of index above \<open>i\<close>. The list is returned as it was built:
  the sorting \<open>return\<close> after the first \<open>return\<close> is never reached.
\<close>

definition calculateNatalAspects ::
  "(string \<times> position) list \<Rightarrow> (string \<times> position) list \<Rightarrow> natal_aspect list" where
  "calculateNatalAspects positions angles =
     List.map_filter (\<lambda>(i, j). natalAspectOf (positions ! i) (positions ! j))
       (concat (map (\<lambda>i. map (Pair i) [i + 1 ..< length positions]) [0 ..< length positions]))
     @ List.map_filter (\<lambda>(i, j). natalAspectOf (angles ! i) (positions ! j))
       (concat (map (\<lambda>i. map (Pair i) [i + 1 ..< length positions]) [0 ..< length angles]))"

subsection \<open>The compatibility filter of the chart\<close>

definition toLowerCase :: "string \<Rightarrow> string" where
  "toLowerCase s =
     map (\<lambda>c. let n = (of_char c :: nat) in
               if 65 \<le> n \<and> n \<le> 90 then char_of (n + 32) else c) s"

definition elementGroups :: "string list list" where
  "elementGroups =
     [[''Aries'', ''Leo'', ''Sagittarius''],
      [''Taurus'', ''Virgo'', ''Capricorn''],
      [''Gemini'', ''Libra'', ''Aquarius''],
      [''Cancer'', ''Scorpio'', ''Pisces'']]"

definition polarityGroups :: "string list list" where
  "polarityGroups =
     [[''Aries'', ''Gemini'', ''Leo'', ''Libra'', ''Sagittarius'', ''Aquarius''],
      [''Taurus'', ''Cancer'', ''Virgo'', ''Scorpio'', ''Capricorn'', ''Pisces'']]"

text \<open>A sign that is \<open>undefined\<close> is in no group.\<close>

fun inGroup :: "string list \<Rightarrow> string option \<Rightarrow> bool" where
  "inGroup g None = False"
| "inGroup g (Some s) = (s \<in> set g)"

definition isCompatibleByElement :: "string option \<Rightarrow> string option \<Rightarrow> bool" where
  "isCompatibleByElement sign1 sign2 =
     list_ex (\<lambda>g. inGroup g sign1 \<and> inGroup g sign2) elementGroups"

definition isCompatibleByPolarity :: "string option \<Rightarrow> string option \<Rightarrow> bool" where
  "isCompatibleByPolarity sign1 sign2 =
     list_ex (\<lambda>g. inGroup g sign1 \<and> inGroup g sign2) polarityGroups"

text \<open>
  \<open>filterAspects\<close> has two parameters, the aspects and the positions. Reading the sign
  of a body that the positions do not hold throws a \<open>TypeError\<close>: the result is \<open>None\<close>
  then. An empty name is falsy and its aspect is dropped by the last test.
\<close>

fun filterAspects_loop ::
  "natal_aspect list \<Rightarrow> (string \<rightharpoonup> position) \<Rightarrow> natal_aspect list \<Rightarrow> natal_aspect list option" where
  "filterAspects_loop [] positions aspects' = Some aspects'"
| "filterAspects_loop (aspect' # rest) positions aspects' =
     (let planet1' = planet1 aspect';
          planet2' = planet2 aspect';
          aspectName = toLowerCase (aspect_N aspect') in
      case positions planet1' of
        None \<Rightarrow> None
      | Some position1 \<Rightarrow>
     (case positions planet2' of
        None \<Rightarrow> None
      | Some position2 \<Rightarrow>
          let sign1 = sign position1;
              sign2 = sign position2 in
          if planet1' = ''NNode'' \<and> aspectName = ''opposition''
          then filterAspects_loop rest positions aspects'
          else if aspectName = ''square'' \<and> isCompatibleByElement sign1 sign2
          then filterAspects_loop rest positions aspects'
          else if aspectName = ''trine'' \<and> \<not> isCompatibleByElement sign1 sign2
          then filterAspects_loop rest positions aspects'
          else if aspectName = ''sextile'' \<and> \<not> isCompatibleByPolarity sign1 sign2
          then filterAspects_loop rest positions aspects'
          else if aspectName = ''conjunction'' \<and> sign1 \<noteq> sign2
          then filterAspects_loop rest positions aspects'
          else if planet1' \<noteq> [] \<and> planet2' \<noteq> []
          then filterAspects_loop rest positions (aspects' @ [aspect'])
          else filterAspects_loop rest positions aspects'))"

definition filterAspects ::
  "natal_aspect list \<Rightarrow> (string \<times> position) list \<Rightarrow> natal_aspect list option" where
  "filterAspects inputAspects positions = filterAspects_loop inputAspects (map_of positions) []"

text \<open>
  The aspect stage of \<open>generateChart\<close>, for the positions of the bodies and of the angles
  \<open>AS\<close> and \<open>MC\<close> that the ephemeris stage produced. The call passes the flag
  \<open>considerAspectsCompatibility\<close> of the calculator as a third argument, which
  \<open>filterAspects\<close> does not take; the merged object looks a name up among the angles
  first.
\<close>

definition generateChart_aspects ::
  "bool \<Rightarrow> (string \<times> position) list \<Rightarrow> (string \<times> position) list \<Rightarrow> natal_aspect list option" where
  "generateChart_aspects considerAspectsCompatibility planets' angles =
     (let aspects' = calculateNatalAspects planets' angles in
      filterAspects aspects' (angles @ planets'))"

section \<open>Example inputs\<close>

text \<open>
  Three bodies of a chart: the Sun at 29 degrees (Aries), the Moon at 121 degrees (Leo)
  and Venus at 31 degrees (Taurus); a transiting Sun at 10 degrees over natal bodies at
  10.8 and 10.2 degrees; and an ephemeris that knows the Sun only, at 10 degrees.
\<close>

definition examplePlanets :: "(string \<times> position) list" where
  "examplePlanets =
     [(''Sun'', \<lparr>longitude = Num 29, longitudeSpeed = Num 1, sign = Some ''Aries'', house = Some 1\<rparr>),
      (''Moon'', \<lparr>longitude = Num 121, longitudeSpeed = Num 13, sign = Some ''Leo'', house = Some 5\<rparr>),
      (''Venus'', \<lparr>longitude = Num 31, longitudeSpeed = Num 1, sign = Some ''Taurus'', house = Some 2\<rparr>)]"

definition exampleTransit :: "(string \<times> position) list" where
  "exampleTransit =
     [(''Sun'', \<lparr>longitude = Num 10, longitudeSpeed = Num 1, sign = Some ''Aries'', house = Some 1\<rparr>)]"

definition exampleNatal :: "(string \<times> position) list" where
  "exampleNatal =
     [(''Moon'', \<lparr>longitude = Num (54/5), longitudeSpeed = Num 13, sign = Some ''Aries'', house = Some 1\<rparr>),
      (''Venus'', \<lparr>longitude = Num (51/5), longitudeSpeed = Num 1, sign = Some ''Aries'', house = Some 1\<rparr>)]"

definition exampleNatalClose :: "(string \<times> position) list" where
  "exampleNatalClose =
     [(''Moon'', \<lparr>longitude = Num (51/5), longitudeSpeed = Num 13, sign = Some ''Aries'', house = Some 1\<rparr>),
      (''Venus'', \<lparr>longitude = Num (101/10), longitudeSpeed = Num 1, sign = Some ''Aries'', house = Some 1\<rparr>)]"

definition exampleEphemeris :: "string \<Rightarrow> calc_result option" where
  "exampleEphemeris planetName =
     (if planetName = ''Sun''
      then Some \<lparr>rflag = Num 0, result_longitude = Num 10, result_longitudeSpeed = Num 1\<rparr>
      else None)"

section \<open>Theorems\<close>

subsection \<open>Truncation\<close>

lemma trunc0_of_int [simp]: "trunc0 (of_int n) = n"
  by (simp add: trunc0_def)

lemma trunc0_midpoint:
  assumes "low + 2 \<le> high"
  shows "low < trunc0 ((real_of_int low + real_of_int high) / 2)"
    and "trunc0 ((real_of_int low + real_of_int high) / 2) < high"
proof -
  let ?m = "(real_of_int low + real_of_int high) / 2"
  have lo: "real_of_int (low + 1) \<le> ?m" using assms by simp
  have hi: "?m \<le> real_of_int (high - 1)" using assms by simp
  have "low + 1 \<le> \<lfloor>?m\<rfloor>" using lo by (simp only: le_floor_iff)
  moreover have "\<lceil>?m\<rceil> \<le> high - 1" using hi by (simp only: ceiling_le_iff)
  moreover have "\<lfloor>?m\<rfloor> \<le> \<lceil>?m\<rceil>" by (rule floor_le_ceiling)
  ultimately have "low < \<lfloor>?m\<rfloor>" "low < \<lceil>?m\<rceil>" "\<lfloor>?m\<rfloor> < high" "\<lceil>?m\<rceil> < high"
    by linarith+
  then show "low < trunc0 ?m" and "trunc0 ?m < high"
    unfolding trunc0_def by (simp_all only: if_split) simp_all
qed

subsection \<open>Bisection\<close>

lemma findExactMoment_loop_bracket:
  assumes "1 \<le> precisionMs"
    and "low < c" and "c \<le> high"
    and "\<forall>t. low \<le> t \<and> t \<le> high \<longrightarrow> checkFunction t = (c \<le> t)"
  shows "\<exists>r. findExactMoment_loop checkFunction precisionMs low high = Some r
            \<and> low \<le> r \<and> r < c \<and> real_of_int (c - r) \<le> precisionMs"
  using assms
proof (induction "nat (high - low)" arbitrary: low high rule: less_induct)
  case less
  show ?case
  proof (cases "real_of_int (high - low) > precisionMs")
    case False
    then have "real_of_int (c - low) \<le> precisionMs"
      using less.prems(3) by (smt (verit) of_int_le_iff)
    then show ?thesis
      using False less.prems(2) by (subst findExactMoment_loop.simps) simp
  next
    case True
    define mid where "mid = trunc0 ((real_of_int low + real_of_int high) / 2)"
    from True less.prems(1) have "1 < real_of_int (high - low)" by linarith
    then have "low + 2 \<le> high" by linarith
    then have mid: "low < mid" "mid < high"
      unfolding mid_def by (rule trunc0_midpoint)+
    have unfold: "findExactMoment_loop checkFunction precisionMs low high =
        (if checkFunction mid
         then findExactMoment_loop checkFunction precisionMs low mid
         else findExactMoment_loop checkFunction precisionMs mid high)"
      using True by (subst findExactMoment_loop.simps) (simp add: mid_def Let_def)
    have pmid: "checkFunction mid = (c \<le> mid)"
      using less.prems(4) mid by simp
    show ?thesis
    proof (cases "c \<le> mid")
      case True
      have "\<exists>r. findExactMoment_loop checkFunction precisionMs low mid = Some r
            \<and> low \<le> r \<and> r < c \<and> real_of_int (c - r) \<le> precisionMs"
      proof (rule less.hyps)
        show "nat (mid - low) < nat (high - low)" using mid by simp
        show "1 \<le> precisionMs" by (rule less.prems(1))
        show "low < c" by (rule less.prems(2))
        show "c \<le> mid" by (rule True)
        show "\<forall>t. low \<le> t \<and> t \<le> mid \<longrightarrow> checkFunction t = (c \<le> t)"
          using less.prems(4) mid by simp
      qed
      then show ?thesis using unfold pmid True by simp
    next
      case False
      have "\<exists>r. findExactMoment_loop checkFunction precisionMs mid high = Some r
            \<and> mid \<le> r \<and> r < c \<and> real_of_int (c - r) \<le> precisionMs"
      proof (rule less.hyps)
        show "nat (high - mid) < nat (high - low)" using mid by simp
        show "1 \<le> precisionMs" by (rule less.prems(1))
        show "mid < c" using False by simp
        show "c \<le> high" by (rule less.prems(3))
        show "\<forall>t. mid \<le> t \<and> t \<le> high \<longrightarrow> checkFunction t = (c \<le> t)"
          using less.prems(4) mid by simp
      qed
      then show ?thesis using unfold pmid False mid by auto
    qed
  qed
qed

text \<open>
  Claim C1. Let the precision be at least one millisecond (the default is one minute).
  If the check already holds at the start, \<open>findExactMoment\<close> returns the start. If it
  holds neither at the start nor at the end, it returns null. If the check is a step
  inside the interval, false before a crossing \<open>c\<close> and true from \<open>c\<close> on, the bisection
  terminates and returns a moment of the interval that lies before the crossing by at
  most the precision. Nothing is assumed about the check outside the interval, so the
  search never depends on a moment past the end.
\<close>

theorem findExactMoment_correct:
  assumes "1 \<le> precision * 60 * 1000"
  shows "(checkFunction startDate \<longrightarrow>
            findExactMoment startDate endDate checkFunction precision = Some (Some startDate))
       \<and> (\<not> checkFunction startDate \<and> \<not> checkFunction endDate \<longrightarrow>
            findExactMoment startDate endDate checkFunction precision = Some None)
       \<and> (\<forall>c. startDate < c \<and> c \<le> endDate
              \<and> (\<forall>t. startDate \<le> t \<and> t \<le> endDate \<longrightarrow> checkFunction t = (c \<le> t)) \<longrightarrow>
            (\<exists>r. findExactMoment startDate endDate checkFunction precision = Some (Some r)
                \<and> startDate \<le> r \<and> r < c \<and> real_of_int (c - r) \<le> precision * 60 * 1000))"
proof (intro conjI impI allI)
  assume "checkFunction startDate"
  then show "findExactMoment startDate endDate checkFunction precision = Some (Some startDate)"
    by (simp add: findExactMoment_def)
next
  assume "\<not> checkFunction startDate \<and> \<not> checkFunction endDate"
  then show "findExactMoment startDate endDate checkFunction precision = Some None"
    by (simp add: findExactMoment_def)
next
  fix c
  assume h: "startDate < c \<and> c \<le> endDate
      \<and> (\<forall>t. startDate \<le> t \<and> t \<le> endDate \<longrightarrow> checkFunction t = (c \<le> t))"
  then have ends: "\<not> checkFunction startDate" "checkFunction endDate" by auto
  from h assms obtain r where
    "findExactMoment_loop checkFunction (precision * 60 * 1000) startDate endDate = Some r"
    "startDate \<le> r" "r < c" "real_of_int (c - r) \<le> precision * 60 * 1000"
    using findExactMoment_loop_bracket [of "precision * 60 * 1000" startDate c endDate checkFunction]
    by blast
  then show "\<exists>r. findExactMoment startDate endDate checkFunction precision = Some (Some r)
                \<and> startDate \<le> r \<and> r < c \<and> real_of_int (c - r) \<le> precision * 60 * 1000"
    using ends by (simp add: findExactMoment_def)
qed

theorem findExactMoment_correct_witness:
  "(1::real) \<le> 1 * 60 * 1000
   \<and> (0::int) < 100000 \<and> (100000::int) \<le> 3600000
   \<and> (\<exists>r. findExactMoment 0 3600000 (\<lambda>t. 100000 \<le> t) 1 = Some (Some r)
          \<and> 0 \<le> r \<and> r < 100000 \<and> real_of_int (100000 - r) \<le> 1 * 60 * 1000)
   \<and> findExactMoment 100000 3600000 (\<lambda>t. 100000 \<le> t) 1 = Some (Some 100000)
   \<and> findExactMoment 0 50000 (\<lambda>t. 100000 \<le> t) 1 = Some None"
proof -
  have p: "(1::real) \<le> 1 * 60 * 1000" by simp
  have a: "\<exists>r. findExactMoment 0 3600000 (\<lambda>t. 100000 \<le> t) 1 = Some (Some r)
          \<and> 0 \<le> r \<and> r < 100000 \<and> real_of_int (100000 - r) \<le> 1 * 60 * 1000"
    using findExactMoment_correct [OF p, of "\<lambda>t. 100000 \<le> t" 0 3600000,
        THEN conjunct2, THEN conjunct2, THEN spec, of 100000] by simp
  have b: "findExactMoment 100000 3600000 (\<lambda>t. 100000 \<le> t) 1 = Some (Some 100000)"
    using findExactMoment_correct [OF p, of "\<lambda>t. 100000 \<le> t" 100000 3600000] by simp
  have c: "findExactMoment 0 50000 (\<lambda>t. 100000 \<le> t) 1 = Some None"
    using findExactMoment_correct [OF p, of "\<lambda>t. 100000 \<le> t" 0 50000] by simp
  show ?thesis using a b c by simp
qed

subsection \<open>House resolver\<close>

lemma sorted_cover:
  fixes d :: "real list"
  assumes sorted: "sorted d" and len: "length d = n" and n2: "2 \<le> n"
    and ends: "d ! 0 < d ! (n - 1)"
  shows "\<exists>!j. j < n \<and> housePred x d n j"
proof -
  have le: "d ! a \<le> d ! b" if "a \<le> b" "b < n" for a b
    using sorted that len by (simp add: sorted_iff_nth_mono)
  have inner: "housePred x d n j \<longleftrightarrow> d ! j \<le> x \<and> x < d ! (j + 1)" if "j + 1 < n" for j
  proof -
    have "d ! j \<le> d ! (j + 1)" using that by (intro le) simp_all
    then have "\<not> d ! (j + 1) < d ! j" by simp
    then show ?thesis using that by (simp add: housePred_def)
  qed
  have last: "housePred x d n (n - 1) \<longleftrightarrow> d ! (n - 1) \<le> x \<or> x < d ! 0"
  proof -
    have "(n - 1 + 1) mod n = 0" using n2 by simp
    then show ?thesis using ends by (simp add: housePred_def)
  qed
  show ?thesis
  proof (rule ex_ex1I)
    show "\<exists>j. j < n \<and> housePred x d n j"
    proof (cases "d ! (n - 1) \<le> x \<or> x < d ! 0")
      case True
      then have "housePred x d n (n - 1)" using last by blast
      moreover have "n - 1 < n" using n2 by simp
      ultimately show ?thesis by blast
    next
      case False
      define J where "J = {j. j < n \<and> d ! j \<le> x}"
      have fin: "finite J" unfolding J_def by simp
      have "0 \<in> J" using False n2 by (simp add: J_def)
      then have ne: "J \<noteq> {}" by blast
      define m where "m = Max J"
      have mJ: "m \<in> J" unfolding m_def using fin ne by (rule Max_in)
      then have m: "m < n" "d ! m \<le> x" by (simp_all add: J_def)
      have "m \<noteq> n - 1" using m False by auto
      then have m1: "m + 1 < n" using m by simp
      have "m + 1 \<notin> J"
      proof
        assume "m + 1 \<in> J"
        then have "m + 1 \<le> m" unfolding m_def using fin by (intro Max_ge)
        then show False by simp
      qed
      then have "x < d ! (m + 1)" using m1 by (simp add: J_def)
      then have "housePred x d n m" using m m1 by (simp add: inner)
      then show ?thesis using m by blast
    qed
  next
    fix i j
    assume i: "i < n \<and> housePred x d n i" and j: "j < n \<and> housePred x d n j"
    have aux: "a = b" if a: "a < n" "housePred x d n a" and b: "b < n" "housePred x d n b" and ab: "a \<le> b" for a b
    proof (rule ccontr)
      assume "a \<noteq> b"
      then have lt: "a < b" using ab by simp
      then have a1: "a + 1 < n" using b by simp
      then have xa: "d ! a \<le> x" "x < d ! (a + 1)" using a inner by simp_all
      have "d ! (a + 1) \<le> d ! b" using lt b by (intro le) simp_all
      then have xb: "x < d ! b" using xa by simp
      show False
      proof (cases "b + 1 < n")
        case True
        then show ?thesis using b inner xb by simp
      next
        case False
        then have "b = n - 1" using b by simp
        then have "d ! (n - 1) \<le> x \<or> x < d ! 0" using b last by blast
        moreover have "d ! 0 \<le> d ! a" using a by (intro le) simp_all
        ultimately show ?thesis using xa xb \<open>b = n - 1\<close> by simp
      qed
    qed
    show "i = j"
    proof (cases "i \<le> j")
      case True then show ?thesis using aux i j by blast
    next
      case False then have "j \<le> i" by simp
      then show ?thesis using aux [of j i] i j by blast
    qed
  qed
qed


lemma houseContains_real:
  assumes "length cs = 12" "i < 12"
  shows "houseContains (Num x) (map Num cs) i = housePred x cs 12 i"
  using assms by (simp add: houseContains_def js_nth_def housePred_def Let_def)

lemma housePred_rotate:
  assumes "length cs = 12" "j < 12"
  shows "housePred x (rotate k cs) 12 j = housePred x cs 12 ((k + j) mod 12)"
proof -
  have a: "rotate k cs ! j = cs ! ((k + j) mod 12)"
    using assms by (simp add: nth_rotate)
  have "(j + 1) mod 12 < 12" by simp
  then have "rotate k cs ! ((j + 1) mod 12) = cs ! ((k + (j + 1) mod 12) mod 12)"
    using assms(1) by (simp add: nth_rotate)
  moreover have "(k + (j + 1) mod 12) mod 12 = ((k + j) mod 12 + 1) mod 12"
    by presburger
  ultimately show ?thesis using a by (simp add: housePred_def)
qed

lemma circular_cover:
  assumes "circular_cusps cs"
  shows "\<exists>!i. i < 12 \<and> housePred x cs 12 i"
proof -
  from assms obtain k where len: "length cs = 12" and k: "k < 12"
    and sorted: "sorted (rotate k cs)" and ends: "rotate k cs ! 0 < rotate k cs ! 11"
    unfolding circular_cusps_def by blast
  have "\<exists>!j. j < 12 \<and> housePred x (rotate k cs) 12 j"
    using sorted len ends by (intro sorted_cover) simp_all
  then obtain j where j: "j < 12" "housePred x (rotate k cs) 12 j"
    and uniq: "\<And>j'. j' < 12 \<Longrightarrow> housePred x (rotate k cs) 12 j' \<Longrightarrow> j' = j"
    by (elim ex1E) blast
  show ?thesis
  proof (rule ex1I [of _ "(k + j) mod 12"])
    show "(k + j) mod 12 < 12 \<and> housePred x cs 12 ((k + j) mod 12)"
      using j len by (simp add: housePred_rotate)
  next
    fix i
    assume i: "i < 12 \<and> housePred x cs 12 i"
    define j' where "j' = (i + 12 - k) mod 12"
    have j': "j' < 12" by (simp add: j'_def)
    have "(k + j') mod 12 = (k + (i + 12 - k)) mod 12"
      unfolding j'_def by (simp add: mod_add_right_eq)
    also have "k + (i + 12 - k) = i + 12" using k by simp
    also have "(i + 12) mod 12 = i" using i by simp
    finally have kj: "(k + j') mod 12 = i" .
    have "housePred x (rotate k cs) 12 j'"
      using i len j' kj by (simp add: housePred_rotate)
    then have "j' = j" using j' by (rule uniq [rotated])
    then show "i = (k + j) mod 12" using kj by simp
  qed
qed

lemma normalizeLongitude_Num: "\<exists>x. normalizeLongitude (Num lon) = Num x"
  by (simp add: normalizeLongitude_def Let_def)

lemma find_unique_upt:
  assumes "i < n" "P i" "\<And>j. j < n \<Longrightarrow> P j \<Longrightarrow> j = i"
  shows "find P [0..<n] = Some i"
proof -
  have "\<exists>k<length [0..<n]. P ([0..<n] ! k) \<and> i = [0..<n] ! k \<and> (\<forall>j<k. \<not> P ([0..<n] ! j))"
  proof (intro exI [of _ i] conjI allI impI)
    show "i < length [0..<n]" using assms(1) by simp
    show "P ([0..<n] ! i)" using assms(1,2) by simp
    show "i = [0..<n] ! i" using assms(1) by simp
    fix j assume "j < i"
    then show "\<not> P ([0..<n] ! j)" using assms(1) assms(3) [of j] by auto
  qed
  then show ?thesis by (simp only: find_Some_iff)
qed

lemma houseSearch_circular:
  assumes "circular_cusps cs" and "map cusp houseCusps = map Num cs"
  shows "\<exists>n. houseSearch (Num lon) houseCusps = Some n
            \<and> determinePlanetHouse (Num lon) houseCusps = n \<and> 1 \<le> n \<and> n \<le> 12
            \<and> (\<forall>i. i < 12 \<longrightarrow>
                 houseContains (normalizeLongitude (Num lon)) (map cusp houseCusps) i = (i + 1 = n))"
proof -
  obtain x where x: "normalizeLongitude (Num lon) = Num x"
    using normalizeLongitude_Num by blast
  have len: "length cs = 12" using assms(1) by (simp add: circular_cusps_def)
  from circular_cover [OF assms(1), of x]
  obtain i where i: "i < 12" "housePred x cs 12 i"
    and uniq: "\<And>j. j < 12 \<Longrightarrow> housePred x cs 12 j \<Longrightarrow> j = i"
    by (elim ex1E) blast
  have hc: "houseContains (Num x) (map Num cs) j = housePred x cs 12 j" if "j < 12" for j
    using len that by (rule houseContains_real)
  have "find (houseContains (Num x) (map Num cs)) [0..<12] = Some i"
  proof (rule find_unique_upt)
    show "i < 12" by (rule i(1))
    show "houseContains (Num x) (map Num cs) i" using i hc [of i] by blast
    fix j assume "j < 12" "houseContains (Num x) (map Num cs) j"
    then show "j = i" using hc [of j] uniq [of j] by blast
  qed
  then have hs: "houseSearch (Num lon) houseCusps = Some (i + 1)"
    by (simp add: houseSearch_def x assms(2))
  then have dp: "determinePlanetHouse (Num lon) houseCusps = i + 1"
    by (simp add: determinePlanetHouse_def)
  have "houseContains (normalizeLongitude (Num lon)) (map cusp houseCusps) j = (j + 1 = i + 1)"
    if "j < 12" for j
    using that hc [of j] i uniq [of j] by (auto simp: x assms(2))
  then show ?thesis using hs dp i by auto
qed

lemma circular_equal_cusps:
  "circular_cusps [0, 30, 60, 90, 120, 150, 180, 210, 240, 270, 300, 330]"
  unfolding circular_cusps_def by (intro conjI exI [of _ 0]) simp_all

lemma equalHouses_cusps:
  "map cusp equalHouses = map Num [0, 30, 60, 90, 120, 150, 180, 210, 240, 270, 300, 330]"
  by (simp add: equalHouses_def upt_rec)

text \<open>
  Claim C2. For twelve cusps that go once around the circle and every longitude, the
  loop of \<open>determinePlanetHouse\<close> finds a house, so the fallback after the loop is not
  reached; the house number is between 1 and 12, and it is the only house whose test
  the normalized longitude passes. With the evenly spaced cusps 0, 30, ..., 330 the
  longitude 45 is in house 2 and the longitude 359 in house 12.
\<close>

theorem determinePlanetHouse_partition:
  "(circular_cusps cs \<and> map cusp houseCusps = map Num cs \<longrightarrow>
      (\<exists>n. houseSearch (Num lon) houseCusps = Some n
          \<and> determinePlanetHouse (Num lon) houseCusps = n \<and> 1 \<le> n \<and> n \<le> 12
          \<and> (\<forall>i. i < 12 \<longrightarrow>
                houseContains (normalizeLongitude (Num lon)) (map cusp houseCusps) i = (i + 1 = n))))
   \<and> houseSearch (Num 45) equalHouses = Some 2
   \<and> determinePlanetHouse (Num 45) equalHouses = 2
   \<and> houseSearch (Num 359) equalHouses = Some 12
   \<and> determinePlanetHouse (Num 359) equalHouses = 12"
proof (intro conjI impI)
  assume "circular_cusps cs \<and> map cusp houseCusps = map Num cs"
  then show "\<exists>n. houseSearch (Num lon) houseCusps = Some n
          \<and> determinePlanetHouse (Num lon) houseCusps = n \<and> 1 \<le> n \<and> n \<le> 12
          \<and> (\<forall>i. i < 12 \<longrightarrow>
                houseContains (normalizeLongitude (Num lon)) (map cusp houseCusps) i = (i + 1 = n))"
    using houseSearch_circular [of cs houseCusps lon] by blast
next
  show "houseSearch (Num 45) equalHouses = Some 2" by code_simp
  show "determinePlanetHouse (Num 45) equalHouses = 2" by code_simp
  show "houseSearch (Num 359) equalHouses = Some 12" by code_simp
  show "determinePlanetHouse (Num 359) equalHouses = 12" by code_simp
qed

theorem determinePlanetHouse_partition_witness:
  "circular_cusps [0, 30, 60, 90, 120, 150, 180, 210, 240, 270, 300, 330]
   \<and> map cusp equalHouses = map Num [0, 30, 60, 90, 120, 150, 180, 210, 240, 270, 300, 330]
   \<and> (\<exists>n. houseSearch (Num 200) equalHouses = Some n
          \<and> determinePlanetHouse (Num 200) equalHouses = n \<and> 1 \<le> n \<and> n \<le> 12)"
proof -
  note h = circular_equal_cusps equalHouses_cusps
  from determinePlanetHouse_partition
    [of "[0, 30, 60, 90, 120, 150, 180, 210, 240, 270, 300, 330]" equalHouses 200]
  have "\<exists>n. houseSearch (Num 200) equalHouses = Some n
          \<and> determinePlanetHouse (Num 200) equalHouses = n \<and> 1 \<le> n \<and> n \<le> 12"
    using h by blast
  then show ?thesis using h by blast
qed

subsection \<open>Aspect matcher\<close>

lemma findTransitAspect_loop_Some:
  "findTransitAspect_loop a p es = Some d \<Longrightarrow>
   \<exists>k ad. (k, ad) \<in> set es \<and> aspect d = ad \<and> targetAngle d = angle ad
        \<and> orb d = js_abs (js_sub a (angle ad)) \<and> js_le (orb d) (getTransitOrb p k)"
  by (induction es) (fastforce simp: Let_def split: if_splits)+

lemma findTransitAspect_loop_None:
  "findTransitAspect_loop a p es = None \<longleftrightarrow>
   (\<forall>(k, ad) \<in> set es. \<not> js_le (js_abs (js_sub a (angle ad))) (getTransitOrb p k))"
  by (induction es) (auto simp: Let_def split: if_splits)

lemma getTransitOrb_minor:
  "aspectName \<in> fst ` set transitAspects \<Longrightarrow>
   getTransitOrb transitPlanet aspectName =
     minor (case map_of transitOrbs transitPlanet of Some orbs \<Rightarrow> orbs | None \<Rightarrow> defaultOrbs)"
  by (auto simp: getTransitOrb_def transitAspects_def majorAspects_def Let_def)


lemma findTransitAspect_AC_loop_None:
  "findTransitAspect_AC_loop a p es = None \<longleftrightarrow>
   (\<forall>(k, ad) \<in> set es. \<not> js_le (js_abs (js_sub a (angle ad))) (getTransitOrb_AC p (name ad)))"
  by (induction es) (auto simp: Let_def split: if_splits)

lemma getTransitOrb_AC_major:
  "(k, ad) \<in> set transitAspects \<Longrightarrow>
   getTransitOrb_AC transitPlanet (name ad) =
     major (case map_of transitOrbs_AC transitPlanet of Some orbs \<Rightarrow> orbs | None \<Rightarrow> defaultOrbs)"
  by (auto simp: getTransitOrb_AC_def transitAspects_def majorAspects_def Let_def)

text \<open>
  Claim C3. In the transit calculator the orb is looked up with the key of the catalog
  entry (\<open>CONJUNCTION\<close>), which is not one of the lower-case names of the major aspects,
  so the minor orb is used for every aspect. Saturn at 100 degrees and a natal body at
  101.5 degrees are 1.5 degrees apart, within Saturn's tabulated major orb of 2 degrees:
  the matcher returns nothing, since it compares with the minor orb 1. Under the planet
  name \<open>Saturn\<close> that the position calculation produces, the table of upper-case keys has
  no entry and the default minor orb 0.5 applies. The astrological calculator asks with
  the aspect's name and finds the conjunction with orb 1.5.
\<close>

theorem findTransitAspect_minor_orb:
  "findTransitAspect (Num 100) (Num (203/2)) ''SATURN'' = None
   \<and> calculateAngleBetweenPlanets (Num 100) (Num (203/2)) = Num (3/2)
   \<and> map_of transitOrbs ''SATURN'' = Some \<lparr>major = Num 2, minor = Num 1\<rparr>
   \<and> getTransitOrb ''SATURN'' ''CONJUNCTION'' = Num 1
   \<and> map_of transitOrbs ''Saturn'' = None
   \<and> getTransitOrb ''Saturn'' ''CONJUNCTION'' = Num (1/2)
   \<and> findTransitAspect_AC (Num 100) (Num (203/2)) ''Saturn''
       = Some \<lparr>aspect_AC = \<lparr>angle = Num 0, name = ''conjunction''\<rparr>, orb_AC = Num (3/2),
               targetAngle_AC = Num 0\<rparr>"
  by code_simp

subsection \<open>Shorter arc\<close>




















text \<open>
  With a target that the matcher did not select the two can differ. A retrograde body
  at 0.3 degrees with speed -1 and a partner at 359.9 degrees are 0.4 degrees apart; a
  day later the angle is 0.6 degrees, closer to 60 degrees, and \<open>isTransitApplying\<close>
  called with the target 60 returns false: the remainder of the negative projection is
  negative (-0.7), and the angle computed from it is -0.6.
\<close>

lemma isTransitApplying_negative_projection:
  "isTransitApplying
      \<lparr>longitude = Num (3/10), longitudeSpeed = Num (-1), sign = Some ''Aries'', house = None\<rparr>
      \<lparr>longitude = Num (3599/10), longitudeSpeed = NaN, sign = Some ''Pisces'', house = None\<rparr>
      (Num 60) = False
   \<and> applyingByArc (3/10) (-1) (3599/10) 60
   \<and> shortestArc (3/10) (3599/10) = 4/10
   \<and> shortestArc (3/10 + -1) (3599/10) = 6/10
   \<and> js_rem (js_add (Num (3/10)) (Num (-1))) (Num 360) = Num (-7/10)
   \<and> calculateAngleBetweenPlanets (Num (-7/10)) (Num (3599/10)) = Num (-6/10)
   \<and> findTransitAspect (Num (3/10)) (Num (3599/10)) ''SATURN''
       = Some \<lparr>aspect = \<lparr>angle = Num 0, name = ''conjunction''\<rparr>, orb = Num (4/10),
               exactness = Num 60, targetAngle = Num 0\<rparr>"
  by code_simp

subsection \<open>Rounding to the nearest double\<close>


lemma pow2_powr: "pow2 k = 2 powr (of_int k)"
proof (cases "0 \<le> k")
  case True
  then have "real_of_int k = real (nat k)" by simp
  then have "2 powr (of_int k) = (2::real) ^ nat k"
    by (simp only: powr_realpow zero_less_numeral)
  then show ?thesis using True by (simp add: pow2_def)
next
  case False
  then have "real_of_int k = - real (nat (- k))" by simp
  then have "2 powr (of_int k) = 1 / (2::real) ^ nat (- k)"
    by (simp only: powr_minus_divide powr_realpow zero_less_numeral)
  then show ?thesis using False by (simp add: pow2_def)
qed

lemma pow2_pos [simp]: "0 < pow2 k"
  by (simp add: pow2_powr)

lemma pow2_nonneg [simp]: "0 \<le> pow2 k"
  using pow2_pos [of k] by (simp only: less_imp_le)

lemma pow2_neq0 [simp]: "pow2 k \<noteq> 0"
  using pow2_pos [of k] by linarith














lemma toDouble_0 [simp]: "toDouble 0 = 0"
  by (simp add: toDouble_def)








subsection \<open>Peak estimator\<close>

lemma trunc0_numeral [simp]: "trunc0 (numeral k) = numeral k"
  by (simp add: trunc0_def)

























subsection \<open>Solar return solver\<close>

lemma findSolarReturnMoment_loop_queries:
  "i \<le> maxIterations \<Longrightarrow>
   snd (findSolarReturnMoment_loop swe_calc_ut natalSunLongitude i searchJD) \<le> maxIterations"
proof (induction swe_calc_ut natalSunLongitude i searchJD rule: findSolarReturnMoment_loop.induct)
  case (1 swe_calc_ut natalSunLongitude i searchJD)
  show ?case
  proof (cases "i < maxIterations")
    case False
    then show ?thesis using "1.prems"
      by (subst findSolarReturnMoment_loop.simps) simp
  next
    case True
    then have "i + 1 \<le> maxIterations" by simp
    then show ?thesis using True "1.IH"
      by (subst findSolarReturnMoment_loop.simps)
         (auto simp: Let_def split: option.splits)
  qed
qed

lemma adjustLongitudeDiff_Num: "adjustLongitudeDiff (Num d) = Num (adjustedDiff d)"
  by (simp add: adjustLongitudeDiff_def adjustedDiff_def)

lemma adjustedDiff_range:
  assumes "\<bar>d\<bar> < 360"
  shows "-180 \<le> adjustedDiff d" and "adjustedDiff d \<le> 180"
  using assms by (auto simp: adjustedDiff_def)

lemma findSolarReturnMoment_loop_step:
  assumes "sunEphemeris swe_calc_ut lon speed" and "i < maxIterations"
  shows "findSolarReturnMoment_loop swe_calc_ut (Num t) i (Num jd) =
     (if solarConverged lon t jd then (Inr (Num jd), i + 1)
      else findSolarReturnMoment_loop swe_calc_ut (Num t) (i + 1)
             (Num (solarStep lon speed t jd)))"
proof -
  from assms(1) obtain flag where
    r: "swe_calc_ut (Num jd) = Some \<lparr>rflag = Num flag, result_longitude = Num (lon jd),
          result_longitudeSpeed = Num (speed jd)\<rparr>"
    and flag: "0 \<le> flag" and sp: "1/10000 \<le> \<bar>speed jd\<bar>"
    unfolding sunEphemeris_def by blast
  from sp have nz: "speed jd \<noteq> 0" by auto
  from sp have big: "\<not> \<bar>speed jd\<bar> < 1/10000" by linarith
  show ?thesis
    using assms(2) flag nz big
    by (subst findSolarReturnMoment_loop.simps)
       (simp add: r Let_def adjustLongitudeDiff_Num tolerance_def solarConverged_def
          solarStep_def)
qed

lemma findSolarReturnMoment_loop_estimates:
  assumes "sunEphemeris swe_calc_ut lon speed"
  shows "i \<le> maxIterations \<Longrightarrow>
    \<exists>k. i + k \<le> maxIterations
       \<and> findSolarReturnMoment_loop swe_calc_ut (Num t) i (Num jd)
           = (Inr (Num (solarEstimate lon speed t jd k)), min (i + k + 1) maxIterations)
       \<and> (\<forall>j<k. \<not> solarConverged lon t (solarEstimate lon speed t jd j))
       \<and> (i + k < maxIterations \<longrightarrow> solarConverged lon t (solarEstimate lon speed t jd k))"
proof (induction "maxIterations - i" arbitrary: i jd)
  case 0
  then have i: "i = maxIterations" by simp
  have "findSolarReturnMoment_loop swe_calc_ut (Num t) i (Num jd) = (Inr (Num jd), i)"
    using i by (subst findSolarReturnMoment_loop.simps) simp
  then show ?case using i
    by (intro exI [of _ 0]) (simp add: solarEstimate_def)
next
  case (Suc n)
  then have lt: "i < maxIterations" by simp
  note step = findSolarReturnMoment_loop_step [OF assms lt, of t jd]
  show ?case
  proof (cases "solarConverged lon t jd")
    case True
    then show ?thesis using step lt
      by (intro exI [of _ 0]) (simp add: solarEstimate_def)
  next
    case False
    let ?jd = "solarStep lon speed t jd"
    have "n = maxIterations - (i + 1)" using Suc.hyps(2) by simp
    moreover have "i + 1 \<le> maxIterations" using lt by simp
    ultimately obtain k where k: "i + 1 + k \<le> maxIterations"
      and res: "findSolarReturnMoment_loop swe_calc_ut (Num t) (i + 1) (Num ?jd)
           = (Inr (Num (solarEstimate lon speed t ?jd k)), min (i + 1 + k + 1) maxIterations)"
      and before: "\<forall>j<k. \<not> solarConverged lon t (solarEstimate lon speed t ?jd j)"
      and at: "i + 1 + k < maxIterations \<longrightarrow> solarConverged lon t (solarEstimate lon speed t ?jd k)"
      using Suc.hyps(1) [of "i + 1" ?jd] by blast
    have shift: "solarEstimate lon speed t jd (Suc m) = solarEstimate lon speed t ?jd m" for m
      by (simp add: solarEstimate_def funpow_swap1)
    have "\<not> solarConverged lon t (solarEstimate lon speed t jd j)" if "j < Suc k" for j
    proof (cases j)
      case 0
      then show ?thesis using False by (simp add: solarEstimate_def)
    next
      case (Suc m)
      then show ?thesis using that before shift by simp
    qed
    then show ?thesis using step False k res at shift
      by (intro exI [of _ "Suc k"]) simp
  qed
qed

lemma adjustedDiff_closed_below: "adjustedDiff (-180) = -180"
  by (simp add: adjustedDiff_def)

lemma findSolarReturnMoment_loop_outcome:
  assumes "i < maxIterations"
  shows "findSolarReturnMoment_loop swe_calc_ut target i jd =
     (case solarStepOutcome swe_calc_ut target jd of
        Advances jd' \<Rightarrow> findSolarReturnMoment_loop swe_calc_ut target (i + 1) jd'
      | outcome \<Rightarrow> (solarStop outcome jd, i + 1))"
  using assms
  by (subst findSolarReturnMoment_loop.simps)
     (simp add: solarStepOutcome_def Let_def split: option.splits)

lemma findSolarReturnMoment_loop_trace:
  "i \<le> maxIterations \<Longrightarrow>
    \<exists>k. i + k \<le> maxIterations
       \<and> (\<forall>j<k. advances (solarStepOutcome swe_calc_ut target (solarTrace swe_calc_ut target jd j)))
       \<and> (i + k < maxIterations \<longrightarrow>
            \<not> advances (solarStepOutcome swe_calc_ut target (solarTrace swe_calc_ut target jd k))
            \<and> findSolarReturnMoment_loop swe_calc_ut target i jd
                = (solarStop (solarStepOutcome swe_calc_ut target (solarTrace swe_calc_ut target jd k))
                     (solarTrace swe_calc_ut target jd k), i + k + 1))
       \<and> (i + k = maxIterations \<longrightarrow>
            findSolarReturnMoment_loop swe_calc_ut target i jd
              = (Inr (solarTrace swe_calc_ut target jd k), maxIterations))"
proof (induction "maxIterations - i" arbitrary: i jd)
  case 0
  then have i: "i = maxIterations" by simp
  have "findSolarReturnMoment_loop swe_calc_ut target i jd = (Inr jd, i)"
    using i by (subst findSolarReturnMoment_loop.simps) simp
  then show ?case using i
    by (intro exI [of _ 0]) (simp add: solarTrace_def)
next
  case (Suc m)
  then have lt: "i < maxIterations" by simp
  note step = findSolarReturnMoment_loop_outcome [OF lt, of swe_calc_ut target jd]
  show ?case
  proof (cases "advances (solarStepOutcome swe_calc_ut target jd)")
    case False
    then have "findSolarReturnMoment_loop swe_calc_ut target i jd
        = (solarStop (solarStepOutcome swe_calc_ut target jd) jd, i + 1)"
      using step by (cases "solarStepOutcome swe_calc_ut target jd") simp_all
    then show ?thesis using False lt
      by (intro exI [of _ 0]) (simp add: solarTrace_def)
  next
    case True
    then obtain jd' where o: "solarStepOutcome swe_calc_ut target jd = Advances jd'"
      by (cases "solarStepOutcome swe_calc_ut target jd") simp_all
    then have res: "findSolarReturnMoment_loop swe_calc_ut target i jd
        = findSolarReturnMoment_loop swe_calc_ut target (i + 1) jd'"
      using step by simp
    have shift: "solarTrace swe_calc_ut target jd (Suc n) = solarTrace swe_calc_ut target jd' n" for n
    proof -
      define F where "F = (\<lambda>x. solarNext (solarStepOutcome swe_calc_ut target x) x)"
      have "F jd = jd'" using o by (simp add: F_def)
      moreover have "(F ^^ Suc n) jd = (F ^^ n) (F jd)"
        by (simp only: funpow.simps o_apply funpow_swap1)
      ultimately show ?thesis by (simp add: solarTrace_def F_def [symmetric])
    qed
    have "m = maxIterations - (i + 1)" using Suc.hyps(2) by simp
    moreover have "i + 1 \<le> maxIterations" using lt by simp
    ultimately obtain k where k: "i + 1 + k \<le> maxIterations"
      and before: "\<forall>j<k. advances (solarStepOutcome swe_calc_ut target
                       (solarTrace swe_calc_ut target jd' j))"
      and stop: "i + 1 + k < maxIterations \<longrightarrow>
            \<not> advances (solarStepOutcome swe_calc_ut target (solarTrace swe_calc_ut target jd' k))
            \<and> findSolarReturnMoment_loop swe_calc_ut target (i + 1) jd'
                = (solarStop (solarStepOutcome swe_calc_ut target (solarTrace swe_calc_ut target jd' k))
                     (solarTrace swe_calc_ut target jd' k), i + 1 + k + 1)"
      and cap: "i + 1 + k = maxIterations \<longrightarrow>
            findSolarReturnMoment_loop swe_calc_ut target (i + 1) jd'
              = (Inr (solarTrace swe_calc_ut target jd' k), maxIterations)"
      using Suc.hyps(1) [of "i + 1" jd'] by blast
    have "advances (solarStepOutcome swe_calc_ut target (solarTrace swe_calc_ut target jd j))"
      if "j < Suc k" for j
    proof (cases j)
      case 0
      then show ?thesis using True by (simp add: solarTrace_def)
    next
      case (Suc n)
      then show ?thesis using that before shift by simp
    qed
    then show ?thesis using k stop cap res shift
      by (intro exI [of _ "Suc k"]) simp
  qed
qed

text \<open>
  Claim C7, as amended. \<open>findSolarReturnMoment\<close> queries the ephemeris at most 20 times,
  whatever it answers. Its estimates follow the advances by the adjusted difference
  divided by the speed, and it ends at the first of its twenty steps that does not
  advance: with an error when that step's query throws or returns a negative flag, or
  meets a speed below 0.0001 degrees per day away from the target, and with the current
  estimate when the adjusted difference is below 0.00001 degrees in absolute value; when
  all twenty steps advance, it returns the estimate after the twentieth advance. For an
  ephemeris that always answers with numbers and a speed of at least 0.0001 in absolute
  value, these are the estimates of the iteration on reals. For longitudes of
  \<open>[0, 360)\<close> the adjusted difference lies in the closed interval from -180 to 180, and a
  difference of exactly -180 is kept.
\<close>

theorem findSolarReturnMoment_bounded:
  "snd (findSolarReturnMoment swe_calc_ut natalSunLongitude searchJD) \<le> 20
   \<and> (\<exists>k. k \<le> 20
        \<and> (\<forall>j<k. advances (solarStepOutcome swe_calc_ut natalSunLongitude
                      (solarTrace swe_calc_ut natalSunLongitude searchJD j)))
        \<and> (k < 20 \<longrightarrow>
             \<not> advances (solarStepOutcome swe_calc_ut natalSunLongitude
                    (solarTrace swe_calc_ut natalSunLongitude searchJD k))
             \<and> findSolarReturnMoment swe_calc_ut natalSunLongitude searchJD
                 = (solarStop (solarStepOutcome swe_calc_ut natalSunLongitude
                                 (solarTrace swe_calc_ut natalSunLongitude searchJD k))
                      (solarTrace swe_calc_ut natalSunLongitude searchJD k), k + 1))
        \<and> (k = 20 \<longrightarrow>
             findSolarReturnMoment swe_calc_ut natalSunLongitude searchJD
               = (Inr (solarTrace swe_calc_ut natalSunLongitude searchJD 20), 20)))
   \<and> (sunEphemeris swe_calc_ut lon speed \<longrightarrow>
        (\<exists>k. k \<le> 20
           \<and> findSolarReturnMoment swe_calc_ut (Num t) (Num jd)
               = (Inr (Num (solarEstimate lon speed t jd k)), min (k + 1) 20)
           \<and> (\<forall>j<k. \<not> solarConverged lon t (solarEstimate lon speed t jd j))
           \<and> (k < 20 \<longrightarrow> solarConverged lon t (solarEstimate lon speed t jd k))))
   \<and> (\<bar>d\<bar> < 360 \<longrightarrow> -180 \<le> adjustedDiff d \<and> adjustedDiff d \<le> 180)
   \<and> adjustLongitudeDiff (Num d) = Num (adjustedDiff d)
   \<and> adjustedDiff (-180) = -180"
proof (intro conjI impI)
  show "snd (findSolarReturnMoment swe_calc_ut natalSunLongitude searchJD) \<le> 20"
    using findSolarReturnMoment_loop_queries [of 0 swe_calc_ut natalSunLongitude searchJD]
    by (simp add: findSolarReturnMoment_def maxIterations_def)
next
  from findSolarReturnMoment_loop_trace [of 0 swe_calc_ut natalSunLongitude searchJD]
  show "\<exists>k. k \<le> 20
        \<and> (\<forall>j<k. advances (solarStepOutcome swe_calc_ut natalSunLongitude
                      (solarTrace swe_calc_ut natalSunLongitude searchJD j)))
        \<and> (k < 20 \<longrightarrow>
             \<not> advances (solarStepOutcome swe_calc_ut natalSunLongitude
                    (solarTrace swe_calc_ut natalSunLongitude searchJD k))
             \<and> findSolarReturnMoment swe_calc_ut natalSunLongitude searchJD
                 = (solarStop (solarStepOutcome swe_calc_ut natalSunLongitude
                                 (solarTrace swe_calc_ut natalSunLongitude searchJD k))
                      (solarTrace swe_calc_ut natalSunLongitude searchJD k), k + 1))
        \<and> (k = 20 \<longrightarrow>
             findSolarReturnMoment swe_calc_ut natalSunLongitude searchJD
               = (Inr (solarTrace swe_calc_ut natalSunLongitude searchJD 20), 20))"
    by (simp add: findSolarReturnMoment_def maxIterations_def)
next
  assume "sunEphemeris swe_calc_ut lon speed"
  from findSolarReturnMoment_loop_estimates [OF this, of 0 t jd]
  show "\<exists>k. k \<le> 20
           \<and> findSolarReturnMoment swe_calc_ut (Num t) (Num jd)
               = (Inr (Num (solarEstimate lon speed t jd k)), min (k + 1) 20)
           \<and> (\<forall>j<k. \<not> solarConverged lon t (solarEstimate lon speed t jd j))
           \<and> (k < 20 \<longrightarrow> solarConverged lon t (solarEstimate lon speed t jd k))"
    by (simp add: findSolarReturnMoment_def maxIterations_def)
next
  assume "\<bar>d\<bar> < 360"
  then show "-180 \<le> adjustedDiff d" and "adjustedDiff d \<le> 180"
    by (rule adjustedDiff_range)+
next
  show "adjustLongitudeDiff (Num d) = Num (adjustedDiff d)"
    by (rule adjustLongitudeDiff_Num)
  show "adjustedDiff (-180) = -180"
    by (rule adjustedDiff_closed_below)
qed

text \<open>
  Two runs: a Sun whose longitude is the Julian day itself, found at the second query;
  and an ephemeris that answers at the Julian day 95 and throws everywhere else, where
  the first step advances to 100 and the second raises the error.
\<close>

theorem findSolarReturnMoment_bounded_witness:
  "sunEphemeris
     (\<lambda>x. case x of NaN \<Rightarrow> None
          | Num jd \<Rightarrow> Some \<lparr>rflag = Num 0, result_longitude = Num jd,
                             result_longitudeSpeed = Num 1\<rparr>)
     (\<lambda>jd. jd) (\<lambda>jd. 1)
   \<and> (\<exists>k. k \<le> 20
        \<and> findSolarReturnMoment
             (\<lambda>x. case x of NaN \<Rightarrow> None
                  | Num jd \<Rightarrow> Some \<lparr>rflag = Num 0, result_longitude = Num jd,
                                     result_longitudeSpeed = Num 1\<rparr>)
             (Num 100) (Num 95)
            = (Inr (Num (solarEstimate (\<lambda>jd. jd) (\<lambda>jd. 1) 100 95 k)), min (k + 1) 20))
   \<and> findSolarReturnMoment
        (\<lambda>x. case x of NaN \<Rightarrow> None
             | Num jd \<Rightarrow> Some \<lparr>rflag = Num 0, result_longitude = Num jd,
                                result_longitudeSpeed = Num 1\<rparr>)
        (Num 100) (Num 95) = (Inr (Num 100), 2)
   \<and> findSolarReturnMoment
        (\<lambda>x. if x = Num 95
             then Some \<lparr>rflag = Num 0, result_longitude = Num 95, result_longitudeSpeed = Num 1\<rparr>
             else None)
        (Num 100) (Num 95) = (Inl EphemerisThrew, 2)
   \<and> \<bar>100 - (80::real)\<bar> < 360 \<and> -180 \<le> adjustedDiff (100 - 80) \<and> adjustedDiff (100 - 80) \<le> 180"
proof -
  let ?eph = "\<lambda>x. case x of NaN \<Rightarrow> None
          | Num jd \<Rightarrow> Some \<lparr>rflag = Num 0, result_longitude = Num jd,
                             result_longitudeSpeed = Num 1\<rparr>"
  let ?thr = "\<lambda>x. if x = Num 95
             then Some \<lparr>rflag = Num 0, result_longitude = Num 95, result_longitudeSpeed = Num 1\<rparr>
             else None"
  have h: "sunEphemeris ?eph (\<lambda>jd. jd) (\<lambda>jd. 1)"
    by (simp add: sunEphemeris_def)
  have a: "\<exists>k. k \<le> 20
        \<and> findSolarReturnMoment ?eph (Num 100) (Num 95)
            = (Inr (Num (solarEstimate (\<lambda>jd. jd) (\<lambda>jd. 1) 100 95 k)), min (k + 1) 20)"
    using findSolarReturnMoment_bounded [where swe_calc_ut = ?eph and lon = "\<lambda>jd. jd"
        and speed = "\<lambda>jd. 1" and t = 100 and jd = 95] h
    by blast
  have b: "findSolarReturnMoment ?eph (Num 100) (Num 95) = (Inr (Num 100), 2)"
    by code_simp
  have c: "\<bar>100 - (80::real)\<bar> < 360 \<and> -180 \<le> adjustedDiff (100 - 80) \<and> adjustedDiff (100 - 80) \<le> 180"
    using findSolarReturnMoment_bounded [where d = "100 - 80"]
    by simp
  have o0: "solarStepOutcome ?thr (Num 100) (solarTrace ?thr (Num 100) (Num 95) 0) = Advances (Num 100)"
    by (simp add: solarTrace_def solarStepOutcome_def adjustLongitudeDiff_def tolerance_def)
  have t1: "solarTrace ?thr (Num 100) (Num 95) 1 = Num 100"
    by (simp add: solarTrace_def solarStepOutcome_def adjustLongitudeDiff_def tolerance_def)
  have o1: "solarStepOutcome ?thr (Num 100) (solarTrace ?thr (Num 100) (Num 95) 1) = Throws"
    unfolding t1 by (simp add: solarStepOutcome_def)
  from findSolarReturnMoment_bounded [where swe_calc_ut = ?thr and natalSunLongitude = "Num 100"
      and searchJD = "Num 95"]
  obtain k where k: "k \<le> 20"
    and before: "\<forall>j<k. advances (solarStepOutcome ?thr (Num 100) (solarTrace ?thr (Num 100) (Num 95) j))"
    and stop: "k < 20 \<longrightarrow>
         \<not> advances (solarStepOutcome ?thr (Num 100) (solarTrace ?thr (Num 100) (Num 95) k))
         \<and> findSolarReturnMoment ?thr (Num 100) (Num 95)
             = (solarStop (solarStepOutcome ?thr (Num 100) (solarTrace ?thr (Num 100) (Num 95) k))
                  (solarTrace ?thr (Num 100) (Num 95) k), k + 1)"
    by blast
  have "\<not> 1 < k"
  proof
    assume "1 < k"
    then have "advances (solarStepOutcome ?thr (Num 100) (solarTrace ?thr (Num 100) (Num 95) 1))"
      using before by blast
    then show False unfolding o1 by simp
  qed
  moreover have "k \<noteq> 0"
  proof
    assume "k = 0"
    then have "\<not> advances (solarStepOutcome ?thr (Num 100) (solarTrace ?thr (Num 100) (Num 95) 0))"
      using stop by simp
    then show False unfolding o0 by simp
  qed
  ultimately have "k = 1" by simp
  then have e: "findSolarReturnMoment ?thr (Num 100) (Num 95) = (Inl EphemerisThrew, 2)"
    using stop o1 by simp
  show ?thesis using h a b c e by blast
qed

text \<open>
  With the Sun at 180 degrees and the target at 0 degrees the difference is -180; it is
  not brought into the half-open interval above -180, and the solver steps 180 days
  back at each of its 20 iterations. With a speed below 0.0001 degrees per day the solver
  does not advance but raises an error.
\<close>

theorem findSolarReturnMoment_counterexample:
  "adjustLongitudeDiff (js_sub (Num 0) (Num 180)) = Num (-180)
   \<and> \<not> (-180 < (-180::real))
   \<and> findSolarReturnMoment
        (\<lambda>x. Some \<lparr>rflag = Num 0, result_longitude = Num 180, result_longitudeSpeed = Num 1\<rparr>)
        (Num 0) (Num 2460000) = (Inr (Num 2456400), 20)
   \<and> findSolarReturnMoment
        (\<lambda>x. Some \<lparr>rflag = Num 0, result_longitude = Num 180,
                    result_longitudeSpeed = Num (1/100000)\<rparr>)
        (Num 0) (Num 2460000) = (Inl SpeedTooSmall, 1)"
  by code_simp

subsection \<open>Transits and their summary\<close>

lemma js_le_Num: "js_le x y \<Longrightarrow> \<exists>r. x = Num r"
  by (cases x; cases y) simp_all

lemma js_abs_nonneg: "js_abs x = Num r \<Longrightarrow> 0 \<le> r"
  by (cases x) auto

lemma findTransitAspect_orb_numeric:
  assumes "findTransitAspect transitLong natalLong transitPlanet = Some aspectData"
  shows "\<exists>r. orb aspectData = Num r \<and> 0 \<le> r"
proof -
  from assms have "findTransitAspect_loop
      (calculateAngleBetweenPlanets transitLong natalLong) transitPlanet transitAspects
      = Some aspectData"
    by (simp add: findTransitAspect_def)
  from findTransitAspect_loop_Some [OF this] obtain k and ad :: aspect_def where
    o: "orb aspectData = js_abs (js_sub (calculateAngleBetweenPlanets transitLong natalLong) (angle ad))"
    and le: "js_le (orb aspectData) (getTransitOrb transitPlanet k)"
    by blast
  from js_le_Num [OF le] obtain r where r: "orb aspectData = Num r" by blast
  from o r have "js_abs (js_sub (calculateAngleBetweenPlanets transitLong natalLong) (angle ad)) = Num r"
    by simp
  then have "0 \<le> r" by (rule js_abs_nonneg)
  then show ?thesis using r by blast
qed

lemma calculateTransits_body_consistent:
  assumes "summaryConsistent t"
  shows "summaryConsistent (calculateTransits_body transitDate transitEntry natalEntry t)"
proof (cases transitEntry; cases natalEntry)
  fix transitPlanet transitPos natalPlanet' natalPos
  assume e: "transitEntry = (transitPlanet, transitPos)" "natalEntry = (natalPlanet', natalPos)"
  show ?thesis
  proof (cases "findTransitAspect (longitude transitPos) (longitude natalPos) transitPlanet")
    case None
    then show ?thesis using assms e by (simp add: calculateTransits_body_def)
  next
    case (Some aspectData)
    from findTransitAspect_orb_numeric [OF Some] obtain r where
      "orb aspectData = Num r" "0 \<le> r" by blast
    then show ?thesis using assms e Some
      by (simp add: calculateTransits_body_def summaryConsistent_def updateTransitSummary_def
            Let_def)
  qed
qed

lemma fold_preserves:
  assumes "\<And>x s. P s \<Longrightarrow> P (f x s)" and "P s"
  shows "P (fold f xs s)"
  using assms(2) by (induction xs arbitrary: s) (simp_all add: assms(1))

lemma calculateTransits_loops_consistent:
  assumes "summaryConsistent t"
  shows "summaryConsistent
     (fold (\<lambda>transitEntry.
              fold (\<lambda>natalEntry. calculateTransits_body transitDate transitEntry natalEntry)
                natalPositions)
        positions t)"
proof (rule fold_preserves [where P = summaryConsistent])
  fix transitEntry s
  assume "summaryConsistent s"
  then show "summaryConsistent
     (fold (\<lambda>natalEntry. calculateTransits_body transitDate transitEntry natalEntry)
        natalPositions s)"
    by (rule fold_preserves [where P = summaryConsistent, rotated])
       (rule calculateTransits_body_consistent)
qed (rule assms)

lemma summaryConsistent_sortByOrb:
  assumes "summaryConsistent t"
  shows "summaryConsistent (t\<lparr>aspects := sortByOrb (aspects t)\<rparr>)"
proof -
  have "length (filter P (sortByOrb xs)) = length (filter P xs)" for P xs
    by (simp add: sortByOrb_def filter_sort)
  moreover have "list_all P (sortByOrb xs) = list_all P xs" for P xs
    by (simp add: sortByOrb_def list_all_iff)
  ultimately show ?thesis using assms
    by (simp add: summaryConsistent_def sortByOrb_def)
qed

lemma calculateTransits_consistent:
  "summaryConsistent (calculateTransits swe_calc_ut natalPositions natalHouses transitDate)"
proof -
  have "summaryConsistent \<lparr>transitPositions = ps, aspects = [], summary = emptySummary\<rparr>" for ps
    by (simp add: summaryConsistent_def emptySummary_def)
  then show ?thesis
    unfolding calculateTransits_def Let_def
    by (rule summaryConsistent_sortByOrb [OF calculateTransits_loops_consistent])
qed

text \<open>
  Claim C10. In the record that \<open>calculateTransits\<close> returns, the total of the summary
  is the number of listed aspects and the sum of the applying and the separating
  counts, and the exact count is the number of listed aspects with an orb strictly below
  0.5 degrees.
\<close>

theorem calculateTransits_summary:
  "total_S (summary (calculateTransits swe_calc_ut natalPositions natalHouses transitDate))
     = length (aspects (calculateTransits swe_calc_ut natalPositions natalHouses transitDate))
   \<and> total_S (summary (calculateTransits swe_calc_ut natalPositions natalHouses transitDate))
     = applying_S (summary (calculateTransits swe_calc_ut natalPositions natalHouses transitDate))
       + separating (summary (calculateTransits swe_calc_ut natalPositions natalHouses transitDate))
   \<and> exact (summary (calculateTransits swe_calc_ut natalPositions natalHouses transitDate))
     = length (filter (\<lambda>a. js_lt (orb_T a) (Num (1/2)))
         (aspects (calculateTransits swe_calc_ut natalPositions natalHouses transitDate)))"
  using calculateTransits_consistent [of swe_calc_ut natalPositions natalHouses transitDate]
  by (simp add: summaryConsistent_def)

subsection \<open>Order of the aspect lists\<close>

lemma sortByOrb_sorted: "sorted (map (\<lambda>a. orbValue (orb_T a)) (sortByOrb xs))"
  by (simp add: sortByOrb_def)

lemma sortByOrb_stable:
  "filter (\<lambda>a. orbValue (orb_T a) = k) (sortByOrb xs) = filter (\<lambda>a. orbValue (orb_T a) = k) xs"
  unfolding sortByOrb_def by (rule sort_key_stable)

lemma sortByOrb_same_aspects: "set (sortByOrb xs) = set xs" "length (sortByOrb xs) = length xs"
  by (simp_all add: sortByOrb_def)

text \<open>
  The transit calculator does sort: its list is ascending by orb, and aspects of one orb
  keep the order in which the loops found them.
\<close>

lemma calculateTransits_sorted:
  "sorted (map (\<lambda>a. orbValue (orb_T a))
     (aspects (calculateTransits swe_calc_ut natalPositions natalHouses transitDate)))"
  by (simp add: calculateTransits_def Let_def sortByOrb_sorted)

text \<open>
  Claim C4. \<open>calculateAspectsOfTwoCharts\<close>, the builder of the transit-to-natal and
  chart-to-chart lists, returns before its sort: for a transiting Sun at 10 degrees and
  natal bodies at 10.8 and 10.2 degrees the orbs come back as 0.8, 0.2, in the order of
  insertion and not ascending. \<open>calculateNatalAspects\<close> returns the orbs 2, 2, 0 for the
  three example bodies. \<open>calculateTransits\<close> of the transit calculator returns the orbs
  0.1, 0.2 for bodies inserted in the order 0.2, 0.1.
\<close>

theorem calculateAspectsOfTwoCharts_unsorted:
  "map orb_X (calculateAspectsOfTwoCharts exampleTransit exampleNatal False (DateMs 0))
     = [Num (4/5), Num (1/5)]
   \<and> map (\<lambda>a. planet (point2 a))
        (calculateAspectsOfTwoCharts exampleTransit exampleNatal False (DateMs 0))
     = [''Moon'', ''Venus'']
   \<and> map orb_X (calculateAspectsOfTwoCharts exampleTransit exampleNatal True (DateMs 0))
     = [Num (4/5), Num (1/5)]
   \<and> \<not> sorted [4/5, 1/5 :: real]
   \<and> map orb_N (calculateNatalAspects examplePlanets []) = [Num 2, Num 2, Num 0]
   \<and> map orb_T (aspects (calculateTransits exampleEphemeris exampleNatalClose None (DateMs 0)))
     = [Num (1/10), Num (1/5)]
   \<and> map natalPlanet (aspects (calculateTransits exampleEphemeris exampleNatalClose None (DateMs 0)))
     = [''Venus'', ''Moon'']"
  by code_simp
subsection \<open>Compatibility filter\<close>

lemma generateChart_aspects_flag:
  "generateChart_aspects flag planets' angles = generateChart_aspects flag' planets' angles"
  by (simp add: generateChart_aspects_def)

text \<open>
  Claim C5. With the compatibility flag unset, the chart of the three example bodies
  still loses the square of the Sun in Aries and the Moon in Leo, two signs of one
  element, and the conjunction of the Sun in Aries and Venus in Taurus, two different
  signs: \<open>filterAspects\<close> never sees the flag, and the chart has the same aspects whether
  the flag is set or not.
\<close>

theorem generateChart_aspects_flag_unset:
  "calculateNatalAspects examplePlanets [] =
     [\<lparr>planet1 = ''Sun'', planet2 = ''Moon'', aspect_N = ''square'', angle_N = Num 90,
        orb_N = Num 2, applying_N = False\<rparr>,
      \<lparr>planet1 = ''Sun'', planet2 = ''Venus'', aspect_N = ''conjunction'', angle_N = Num 0,
        orb_N = Num 2, applying_N = False\<rparr>,
      \<lparr>planet1 = ''Moon'', planet2 = ''Venus'', aspect_N = ''square'', angle_N = Num 90,
        orb_N = Num 0, applying_N = False\<rparr>]
   \<and> generateChart_aspects False examplePlanets [] =
     Some [\<lparr>planet1 = ''Moon'', planet2 = ''Venus'', aspect_N = ''square'', angle_N = Num 90,
             orb_N = Num 0, applying_N = False\<rparr>]
   \<and> generateChart_aspects False examplePlanets [] = generateChart_aspects True examplePlanets []
   \<and> isCompatibleByElement (Some ''Aries'') (Some ''Leo'')
   \<and> \<not> isCompatibleByElement (Some ''Leo'') (Some ''Taurus'')"
  by code_simp
subsection \<open>Missing and NaN inputs\<close>

lemma calculateAngleBetweenPlanets_NaN:
  "calculateAngleBetweenPlanets NaN y = NaN" "calculateAngleBetweenPlanets x NaN = NaN"
  by (cases x; simp add: calculateAngleBetweenPlanets_def)+

lemma findTransitAspect_loop_NaN: "findTransitAspect_loop NaN p es = None"
  by (induction es) auto

lemma isTransitApplying_NaN_speed:
  assumes "longitudeSpeed transitPos = NaN"
  shows "\<not> isTransitApplying transitPos natalPos t"
proof -
  have "js_add (longitude transitPos) NaN = NaN" by (cases "longitude transitPos") simp_all
  then show ?thesis using assms
    by (simp add: isTransitApplying_def Let_def calculateAngleBetweenPlanets_NaN)
qed

lemma estimatePeakDate_NaN_speed:
  assumes "longitudeSpeed transitPos = NaN"
  shows "estimatePeakDate transitPos natalPos t currentDate = Some InvalidDate"
proof -
  have d: "dbl_div x NaN = NaN" for x by (cases x) (simp_all add: dbl_div_def)
  have m: "dbl_mul NaN x = NaN" for x by (simp add: dbl_mul_def)
  have a: "dbl_add x NaN = NaN" for x by (cases x) (simp_all add: dbl_add_def)
  show ?thesis using assms
    by (simp add: estimatePeakDate_def Let_def d m a)
qed

text \<open>
  Claim C9, as amended. No input is rejected. A longitude that is \<open>NaN\<close> or missing never
  matches an aspect, so every aspect that \<open>calculateTransits\<close> lists has a numeric orb
  that is not negative, and the sort by orb compares numbers only. A speed that is \<open>NaN\<close>
  or missing is not detected: the classifier answers false and the peak estimator
  returns an invalid date, without an error.
\<close>

theorem nan_inputs_not_rejected:
  "findTransitAspect NaN natalLong transitPlanet = None
   \<and> findTransitAspect transitLong NaN transitPlanet = None
   \<and> list_all (\<lambda>a. \<exists>r. orb_T a = Num r \<and> 0 \<le> r)
        (aspects (calculateTransits swe_calc_ut natalPositions natalHouses transitDate))
   \<and> (longitudeSpeed transitPos = NaN \<longrightarrow>
        \<not> isTransitApplying transitPos natalPos t
        \<and> estimatePeakDate transitPos natalPos t currentDate = Some InvalidDate)"
proof (intro conjI impI)
  show "findTransitAspect NaN natalLong transitPlanet = None"
    by (simp add: findTransitAspect_def calculateAngleBetweenPlanets_NaN findTransitAspect_loop_NaN)
  show "findTransitAspect transitLong NaN transitPlanet = None"
    by (simp add: findTransitAspect_def calculateAngleBetweenPlanets_NaN findTransitAspect_loop_NaN)
  show "list_all (\<lambda>a. \<exists>r. orb_T a = Num r \<and> 0 \<le> r)
        (aspects (calculateTransits swe_calc_ut natalPositions natalHouses transitDate))"
    using calculateTransits_consistent [of swe_calc_ut natalPositions natalHouses transitDate]
    by (simp add: summaryConsistent_def)
next
  assume "longitudeSpeed transitPos = NaN"
  then show "\<not> isTransitApplying transitPos natalPos t"
    by (rule isTransitApplying_NaN_speed)
next
  assume "longitudeSpeed transitPos = NaN"
  then show "estimatePeakDate transitPos natalPos t currentDate = Some InvalidDate"
    by (rule estimatePeakDate_NaN_speed)
qed

theorem nan_inputs_not_rejected_witness:
  "longitudeSpeed \<lparr>longitude = Num 10, longitudeSpeed = NaN, sign = Some ''Aries'', house = None\<rparr> = NaN
   \<and> \<not> isTransitApplying
        \<lparr>longitude = Num 10, longitudeSpeed = NaN, sign = Some ''Aries'', house = None\<rparr>
        \<lparr>longitude = Num (51/5), longitudeSpeed = Num 13, sign = Some ''Aries'', house = Some 1\<rparr>
        (Num 0)
   \<and> estimatePeakDate
        \<lparr>longitude = Num 10, longitudeSpeed = NaN, sign = Some ''Aries'', house = None\<rparr>
        \<lparr>longitude = Num (51/5), longitudeSpeed = Num 13, sign = Some ''Aries'', house = Some 1\<rparr>
        (Num 0) (DateMs 0) = Some InvalidDate
   \<and> findTransitAspect NaN (Num 10) ''Sun'' = None"
  using nan_inputs_not_rejected
    [of "Num 10" "''Sun''" "Num 10" exampleEphemeris exampleNatalClose None "DateMs 0"
      "\<lparr>longitude = Num 10, longitudeSpeed = NaN, sign = Some ''Aries'', house = None\<rparr>"
      "\<lparr>longitude = Num (51/5), longitudeSpeed = Num 13, sign = Some ''Aries'', house = Some 1\<rparr>"
      "Num 0" "DateMs 0"]
  by simp

text \<open>
  A transit of the Sun over two natal bodies: the position of the Sun has no speed, no
  error is raised, and the listed aspects carry the classification false and an invalid
  peak date.
\<close>

theorem calculateTransits_nan_counterexample:
  "transitPositions (calculateTransits exampleEphemeris exampleNatalClose None (DateMs 0))
     = [(''Sun'', \<lparr>longitude = Num 10, longitudeSpeed = NaN, sign = Some ''Aries'', house = None\<rparr>)]
   \<and> map (\<lambda>a. (natalPlanet a, applying a, peakDate a))
        (aspects (calculateTransits exampleEphemeris exampleNatalClose None (DateMs 0)))
     = [(''Venus'', False, Some InvalidDate), (''Moon'', False, Some InvalidDate)]"
  by code_simp

end
